theory Spec2Isabelle
  imports Complex_Main "HOL-Library.Word"
begin

section \<open>The LSTM unit kernels of caffe2/operators/lstm\_unit\_op.h\<close>

text \<open>
  The kernels are templates over the scalar type \<open>T\<close>.  The embedding takes \<open>T\<close> to be
  the real numbers, with \<open>exp\<close> the real exponential: every expression below is the
  source's expression, in the source's order, read in exact arithmetic (rounding is not
  part of the model).  \<open>int32_t\<close> and \<open>int\<close> are 32-bit words compared as signed values.
  The dimensions \<open>N\<close> and \<open>D\<close> and the loop counters are natural numbers (the operators
  pass tensor dimensions; index arithmetic is not wrapped).
\<close>

subsection \<open>Pointers\<close>

text \<open>
  A \<open>T*\<close> is a memory region together with the current offset into it.  The region is
  unbounded, as the kernels receive no buffer size.  Distinct pointer arguments are
  distinct regions: the inputs are never written.
\<close>

type_synonym int32 = "32 word"

type_synonym 'a ptr = "(nat \<Rightarrow> 'a) \<times> nat"

text \<open>\<open>p[i]\<close>\<close>

definition deref :: "'a ptr \<Rightarrow> nat \<Rightarrow> 'a" where
  "deref p i = fst p (snd p + i)"

text \<open>\<open>p[i] = v\<close>\<close>

definition store :: "'a ptr \<Rightarrow> nat \<Rightarrow> 'a \<Rightarrow> 'a ptr" where
  "store p i v = ((fst p)(snd p + i := v), snd p)"

text \<open>\<open>p += k\<close>\<close>

definition advance :: "'a ptr \<Rightarrow> nat \<Rightarrow> 'a ptr" where
  "advance p k = (fst p, snd p + k)"

subsection \<open>Activation helpers\<close>

definition sigmoid :: "real \<Rightarrow> real" where
  "sigmoid x = 1 / (1 + exp (- x))"

definition tanh_T :: "real \<Rightarrow> real" where
  "tanh_T x = 2 * sigmoid (2 * x) - 1"

subsection \<open>Forward kernel\<close>

text \<open>
  The body of the loop over \<open>d\<close>, for one feature position.  The local \<open>o\<close> is spelled
  \<open>o'\<close> (\<open>o\<close> is function composition in HOL).
\<close>

definition LSTMUnit_body ::
  "nat \<Rightarrow> bool \<Rightarrow> real ptr \<Rightarrow> real ptr \<Rightarrow> nat \<Rightarrow> real ptr \<times> real ptr \<Rightarrow> real ptr \<times> real ptr"
where
  "LSTMUnit_body D valid C_prev X d CH =
     (case CH of (C, H) \<Rightarrow>
        if \<not> valid then
          (let H = store H d 0;
               C = store C d (deref C_prev d)
           in (C, H))
        else
          (let i = sigmoid (deref X d);
               f = sigmoid (deref X (1 * D + d));
               o' = sigmoid (deref X (2 * D + d));
               g = tanh_T (deref X (3 * D + d));
               c_prev = deref C_prev d;
               c = f * c_prev + i * g;
               C = store C d c;
               tanh_c = tanh_T c;
               H = store H d (o' * tanh_c)
           in (C, H)))"

text \<open>\<open>for (int d = 0; d < D; ++d)\<close>, entered at \<open>d\<close>.\<close>

function LSTMUnit_d ::
  "nat \<Rightarrow> bool \<Rightarrow> real ptr \<Rightarrow> real ptr \<Rightarrow> nat \<Rightarrow> real ptr \<times> real ptr \<Rightarrow> real ptr \<times> real ptr"
where
  "LSTMUnit_d D valid C_prev X d CH =
     (if d < D then LSTMUnit_d D valid C_prev X (d + 1) (LSTMUnit_body D valid C_prev X d CH)
      else CH)"
  by pat_completeness auto
termination
  by (relation "measure (\<lambda>(D, valid, C_prev, X, d, CH). D - d)") auto

text \<open>
  \<open>for (int n = 0; n < N; ++n)\<close>, entered at \<open>n\<close>.  The four pointers are bumped at the
  end of every iteration; \<open>seqLengths\<close> is indexed by \<open>n\<close>.
\<close>

function LSTMUnit_n ::
  "nat \<Rightarrow> nat \<Rightarrow> int32 \<Rightarrow> int32 ptr \<Rightarrow> nat \<Rightarrow>
   real ptr \<times> real ptr \<times> real ptr \<times> real ptr \<Rightarrow> real ptr \<times> real ptr \<times> real ptr \<times> real ptr"
where
  "LSTMUnit_n N D t seqLengths n P =
     (if n < N then
        (case P of (C_prev, X, C, H) \<Rightarrow>
           (let valid = (t <s deref seqLengths n);
                (C, H) = LSTMUnit_d D valid C_prev X 0 (C, H)
            in LSTMUnit_n N D t seqLengths (n + 1)
                 (advance C_prev D, advance X (4 * D), advance C D, advance H D)))
      else P)"
  by pat_completeness auto
termination
  by (relation "measure (\<lambda>(N, D, t, seqLengths, n, P). N - n)") auto

text \<open>
  The kernel.  The arguments are the regions the caller's pointers point to; the result
  is the contents of the two output regions \<open>C\<close> and \<open>H\<close> on return.
\<close>

definition LSTMUnit ::
  "nat \<Rightarrow> nat \<Rightarrow> int32 \<Rightarrow> (nat \<Rightarrow> real) \<Rightarrow> (nat \<Rightarrow> real) \<Rightarrow> (nat \<Rightarrow> int32) \<Rightarrow>
   (nat \<Rightarrow> real) \<Rightarrow> (nat \<Rightarrow> real) \<Rightarrow> (nat \<Rightarrow> real) \<times> (nat \<Rightarrow> real)"
where
  "LSTMUnit N D t C_prev X seqLengths C H =
     (case LSTMUnit_n N D t (seqLengths, 0) 0 ((C_prev, 0), (X, 0), (C, 0), (H, 0)) of
        (C_prev', X', C', H') \<Rightarrow> (fst C', fst H'))"

subsection \<open>Backward kernel\<close>

text \<open>
  The body of the loop over \<open>d\<close>.  The five output pointers \<open>c_prev_diff\<close>, \<open>i_diff\<close>,
  \<open>f_diff\<close>, \<open>o_diff\<close> and \<open>g_diff\<close> point into the regions of \<open>C_prev_diff\<close> and \<open>X_diff\<close>:
  each is kept as its index from that base pointer, and \<open>*p = v\<close> is the store at that
  index.  \<open>H\<close> is in scope and never read.
\<close>

definition LSTMUnitGradient_body ::
  "nat \<Rightarrow> bool \<Rightarrow> real ptr \<Rightarrow> real ptr \<Rightarrow> real ptr \<Rightarrow> real ptr \<Rightarrow> real ptr \<Rightarrow> real ptr \<Rightarrow> nat \<Rightarrow>
   real ptr \<times> real ptr \<Rightarrow> real ptr \<times> real ptr"
where
  "LSTMUnitGradient_body D valid C_prev X C H C_diff H_diff d out =
     (case out of (C_prev_diff, X_diff) \<Rightarrow>
        (let c_prev_diff = d;
             i_diff = d;
             f_diff = 1 * D + d;
             o_diff = 2 * D + d;
             g_diff = 3 * D + d
         in
           if \<not> valid then
             (let C_prev_diff = store C_prev_diff c_prev_diff (deref C_diff d);
                  X_diff = store X_diff i_diff 0;
                  X_diff = store X_diff f_diff 0;
                  X_diff = store X_diff o_diff 0;
                  X_diff = store X_diff g_diff 0
              in (C_prev_diff, X_diff))
           else
             (let i = sigmoid (deref X d);
                  f = sigmoid (deref X (1 * D + d));
                  o' = sigmoid (deref X (2 * D + d));
                  g = tanh_T (deref X (3 * D + d));
                  c_prev = deref C_prev d;
                  c = deref C d;
                  tanh_c = tanh_T c;
                  c_term_diff = deref C_diff d + deref H_diff d * o' * (1 - tanh_c * tanh_c);
                  C_prev_diff = store C_prev_diff c_prev_diff (c_term_diff * f);
                  X_diff = store X_diff i_diff (c_term_diff * g * i * (1 - i));
                  X_diff = store X_diff f_diff (c_term_diff * c_prev * f * (1 - f));
                  X_diff = store X_diff o_diff (deref H_diff d * tanh_c * o' * (1 - o'));
                  X_diff = store X_diff g_diff (c_term_diff * i * (1 - g * g))
              in (C_prev_diff, X_diff))))"

function LSTMUnitGradient_d ::
  "nat \<Rightarrow> bool \<Rightarrow> real ptr \<Rightarrow> real ptr \<Rightarrow> real ptr \<Rightarrow> real ptr \<Rightarrow> real ptr \<Rightarrow> real ptr \<Rightarrow> nat \<Rightarrow>
   real ptr \<times> real ptr \<Rightarrow> real ptr \<times> real ptr"
where
  "LSTMUnitGradient_d D valid C_prev X C H C_diff H_diff d out =
     (if d < D then
        LSTMUnitGradient_d D valid C_prev X C H C_diff H_diff (d + 1)
          (LSTMUnitGradient_body D valid C_prev X C H C_diff H_diff d out)
      else out)"
  by pat_completeness auto
termination
  by (relation "measure (\<lambda>(D, valid, C_prev, X, C, H, C_diff, H_diff, d, out). D - d)") auto

text \<open>The loop over \<open>n\<close>: all eight pointers are bumped at the end of every iteration.\<close>

function LSTMUnitGradient_n ::
  "nat \<Rightarrow> nat \<Rightarrow> int32 \<Rightarrow> int32 ptr \<Rightarrow> nat \<Rightarrow>
   real ptr \<times> real ptr \<times> real ptr \<times> real ptr \<times> real ptr \<times> real ptr \<times> real ptr \<times> real ptr \<Rightarrow>
   real ptr \<times> real ptr \<times> real ptr \<times> real ptr \<times> real ptr \<times> real ptr \<times> real ptr \<times> real ptr"
where
  "LSTMUnitGradient_n N D t seqLengths n P =
     (if n < N then
        (case P of (C_prev, X, C, H, C_diff, H_diff, C_prev_diff, X_diff) \<Rightarrow>
           (let valid = (t <s deref seqLengths n);
                (C_prev_diff, X_diff) =
                   LSTMUnitGradient_d D valid C_prev X C H C_diff H_diff 0 (C_prev_diff, X_diff)
            in LSTMUnitGradient_n N D t seqLengths (n + 1)
                 (advance C_prev D, advance X (4 * D), advance C D, advance H D,
                  advance C_diff D, advance H_diff D,
                  advance C_prev_diff D, advance X_diff (4 * D))))
      else P)"
  by pat_completeness auto
termination
  by (relation "measure (\<lambda>(N, D, t, seqLengths, n, P). N - n)") auto

text \<open>
  The kernel; the result is the contents of the two output regions \<open>C_prev_diff\<close> and
  \<open>X_diff\<close> on return.
\<close>

definition LSTMUnitGradient ::
  "nat \<Rightarrow> nat \<Rightarrow> int32 \<Rightarrow> (nat \<Rightarrow> real) \<Rightarrow> (nat \<Rightarrow> real) \<Rightarrow> (nat \<Rightarrow> int32) \<Rightarrow>
   (nat \<Rightarrow> real) \<Rightarrow> (nat \<Rightarrow> real) \<Rightarrow> (nat \<Rightarrow> real) \<Rightarrow> (nat \<Rightarrow> real) \<Rightarrow>
   (nat \<Rightarrow> real) \<Rightarrow> (nat \<Rightarrow> real) \<Rightarrow> (nat \<Rightarrow> real) \<times> (nat \<Rightarrow> real)"
where
  "LSTMUnitGradient N D t C_prev X seqLengths C H C_diff H_diff C_prev_diff X_diff =
     (case LSTMUnitGradient_n N D t (seqLengths, 0) 0
             ((C_prev, 0), (X, 0), (C, 0), (H, 0), (C_diff, 0), (H_diff, 0),
              (C_prev_diff, 0), (X_diff, 0)) of
        (C_prev', X', C', H', C_diff', H_diff', C_prev_diff', X_diff') \<Rightarrow>
          (fst C_prev_diff', fst X_diff'))"

subsection \<open>The backward kernel with the cell state recomputed\<close>

text \<open>
  The variant the specification describes: the backward kernel with the one line
  \<open>c = C[d]\<close> replaced by the forward pass's \<open>c = f * c_prev + i * g\<close>; everything else is
  the code's.
\<close>

definition LSTMUnitGradient_recompute_body ::
  "nat \<Rightarrow> bool \<Rightarrow> real ptr \<Rightarrow> real ptr \<Rightarrow> real ptr \<Rightarrow> real ptr \<Rightarrow> real ptr \<Rightarrow> real ptr \<Rightarrow> nat \<Rightarrow>
   real ptr \<times> real ptr \<Rightarrow> real ptr \<times> real ptr"
where
  "LSTMUnitGradient_recompute_body D valid C_prev X C H C_diff H_diff d out =
     (case out of (C_prev_diff, X_diff) \<Rightarrow>
        (let c_prev_diff = d;
             i_diff = d;
             f_diff = 1 * D + d;
             o_diff = 2 * D + d;
             g_diff = 3 * D + d
         in
           if \<not> valid then
             (let C_prev_diff = store C_prev_diff c_prev_diff (deref C_diff d);
                  X_diff = store X_diff i_diff 0;
                  X_diff = store X_diff f_diff 0;
                  X_diff = store X_diff o_diff 0;
                  X_diff = store X_diff g_diff 0
              in (C_prev_diff, X_diff))
           else
             (let i = sigmoid (deref X d);
                  f = sigmoid (deref X (1 * D + d));
                  o' = sigmoid (deref X (2 * D + d));
                  g = tanh_T (deref X (3 * D + d));
                  c_prev = deref C_prev d;
                  c = f * c_prev + i * g;
                  tanh_c = tanh_T c;
                  c_term_diff = deref C_diff d + deref H_diff d * o' * (1 - tanh_c * tanh_c);
                  C_prev_diff = store C_prev_diff c_prev_diff (c_term_diff * f);
                  X_diff = store X_diff i_diff (c_term_diff * g * i * (1 - i));
                  X_diff = store X_diff f_diff (c_term_diff * c_prev * f * (1 - f));
                  X_diff = store X_diff o_diff (deref H_diff d * tanh_c * o' * (1 - o'));
                  X_diff = store X_diff g_diff (c_term_diff * i * (1 - g * g))
              in (C_prev_diff, X_diff))))"

function LSTMUnitGradient_recompute_d ::
  "nat \<Rightarrow> bool \<Rightarrow> real ptr \<Rightarrow> real ptr \<Rightarrow> real ptr \<Rightarrow> real ptr \<Rightarrow> real ptr \<Rightarrow> real ptr \<Rightarrow> nat \<Rightarrow>
   real ptr \<times> real ptr \<Rightarrow> real ptr \<times> real ptr"
where
  "LSTMUnitGradient_recompute_d D valid C_prev X C H C_diff H_diff d out =
     (if d < D then
        LSTMUnitGradient_recompute_d D valid C_prev X C H C_diff H_diff (d + 1)
          (LSTMUnitGradient_recompute_body D valid C_prev X C H C_diff H_diff d out)
      else out)"
  by pat_completeness auto
termination
  by (relation "measure (\<lambda>(D, valid, C_prev, X, C, H, C_diff, H_diff, d, out). D - d)") auto

function LSTMUnitGradient_recompute_n ::
  "nat \<Rightarrow> nat \<Rightarrow> int32 \<Rightarrow> int32 ptr \<Rightarrow> nat \<Rightarrow>
   real ptr \<times> real ptr \<times> real ptr \<times> real ptr \<times> real ptr \<times> real ptr \<times> real ptr \<times> real ptr \<Rightarrow>
   real ptr \<times> real ptr \<times> real ptr \<times> real ptr \<times> real ptr \<times> real ptr \<times> real ptr \<times> real ptr"
where
  "LSTMUnitGradient_recompute_n N D t seqLengths n P =
     (if n < N then
        (case P of (C_prev, X, C, H, C_diff, H_diff, C_prev_diff, X_diff) \<Rightarrow>
           (let valid = (t <s deref seqLengths n);
                (C_prev_diff, X_diff) =
                   LSTMUnitGradient_recompute_d D valid C_prev X C H C_diff H_diff 0
                     (C_prev_diff, X_diff)
            in LSTMUnitGradient_recompute_n N D t seqLengths (n + 1)
                 (advance C_prev D, advance X (4 * D), advance C D, advance H D,
                  advance C_diff D, advance H_diff D,
                  advance C_prev_diff D, advance X_diff (4 * D))))
      else P)"
  by pat_completeness auto
termination
  by (relation "measure (\<lambda>(N, D, t, seqLengths, n, P). N - n)") auto

definition LSTMUnitGradient_recompute ::
  "nat \<Rightarrow> nat \<Rightarrow> int32 \<Rightarrow> (nat \<Rightarrow> real) \<Rightarrow> (nat \<Rightarrow> real) \<Rightarrow> (nat \<Rightarrow> int32) \<Rightarrow>
   (nat \<Rightarrow> real) \<Rightarrow> (nat \<Rightarrow> real) \<Rightarrow> (nat \<Rightarrow> real) \<Rightarrow> (nat \<Rightarrow> real) \<Rightarrow>
   (nat \<Rightarrow> real) \<Rightarrow> (nat \<Rightarrow> real) \<Rightarrow> (nat \<Rightarrow> real) \<times> (nat \<Rightarrow> real)"
where
  "LSTMUnitGradient_recompute N D t C_prev X seqLengths C H C_diff H_diff C_prev_diff X_diff =
     (case LSTMUnitGradient_recompute_n N D t (seqLengths, 0) 0
             ((C_prev, 0), (X, 0), (C, 0), (H, 0), (C_diff, 0), (H_diff, 0),
              (C_prev_diff, 0), (X_diff, 0)) of
        (C_prev', X', C', H', C_diff', H_diff', C_prev_diff', X_diff') \<Rightarrow>
          (fst C_prev_diff', fst X_diff'))"

subsection \<open>The value written at one position\<close>

text \<open>
  Vocabulary for the proofs: what one pass of a loop body stores, as a function of the
  branch taken, the input pointers of the current sequence and the feature index.  The
  lemmas \<open>LSTMUnit_body_eq\<close> and \<open>LSTMUnitGradient_body_eq\<close> below tie them to the bodies.
\<close>

definition cell_val :: "nat \<Rightarrow> bool \<Rightarrow> real ptr \<Rightarrow> real ptr \<Rightarrow> nat \<Rightarrow> real" where
  "cell_val D valid C_prev X d =
     (if valid then sigmoid (deref X (D + d)) * deref C_prev d
                    + sigmoid (deref X d) * tanh_T (deref X (3 * D + d))
      else deref C_prev d)"

definition hidden_val :: "nat \<Rightarrow> bool \<Rightarrow> real ptr \<Rightarrow> real ptr \<Rightarrow> nat \<Rightarrow> real" where
  "hidden_val D valid C_prev X d =
     (if valid then sigmoid (deref X (2 * D + d)) * tanh_T (cell_val D valid C_prev X d)
      else 0)"

definition c_term_val :: "nat \<Rightarrow> real ptr \<Rightarrow> real ptr \<Rightarrow> real ptr \<Rightarrow> real ptr \<Rightarrow> nat \<Rightarrow> real" where
  "c_term_val D X C C_diff H_diff d =
     deref C_diff d + deref H_diff d * sigmoid (deref X (2 * D + d))
                        * (1 - tanh_T (deref C d) * tanh_T (deref C d))"

definition c_prev_diff_val ::
  "nat \<Rightarrow> bool \<Rightarrow> real ptr \<Rightarrow> real ptr \<Rightarrow> real ptr \<Rightarrow> real ptr \<Rightarrow> real ptr \<Rightarrow> nat \<Rightarrow> real" where
  "c_prev_diff_val D valid C_prev X C C_diff H_diff d =
     (if valid then c_term_val D X C C_diff H_diff d * sigmoid (deref X (D + d))
      else deref C_diff d)"

definition i_diff_val ::
  "nat \<Rightarrow> bool \<Rightarrow> real ptr \<Rightarrow> real ptr \<Rightarrow> real ptr \<Rightarrow> real ptr \<Rightarrow> real ptr \<Rightarrow> nat \<Rightarrow> real" where
  "i_diff_val D valid C_prev X C C_diff H_diff d =
     (if valid then c_term_val D X C C_diff H_diff d * tanh_T (deref X (3 * D + d))
                      * sigmoid (deref X d) * (1 - sigmoid (deref X d))
      else 0)"

definition f_diff_val ::
  "nat \<Rightarrow> bool \<Rightarrow> real ptr \<Rightarrow> real ptr \<Rightarrow> real ptr \<Rightarrow> real ptr \<Rightarrow> real ptr \<Rightarrow> nat \<Rightarrow> real" where
  "f_diff_val D valid C_prev X C C_diff H_diff d =
     (if valid then c_term_val D X C C_diff H_diff d * deref C_prev d
                      * sigmoid (deref X (D + d)) * (1 - sigmoid (deref X (D + d)))
      else 0)"

definition o_diff_val ::
  "nat \<Rightarrow> bool \<Rightarrow> real ptr \<Rightarrow> real ptr \<Rightarrow> real ptr \<Rightarrow> real ptr \<Rightarrow> real ptr \<Rightarrow> nat \<Rightarrow> real" where
  "o_diff_val D valid C_prev X C C_diff H_diff d =
     (if valid then deref H_diff d * tanh_T (deref C d)
                      * sigmoid (deref X (2 * D + d)) * (1 - sigmoid (deref X (2 * D + d)))
      else 0)"

definition g_diff_val ::
  "nat \<Rightarrow> bool \<Rightarrow> real ptr \<Rightarrow> real ptr \<Rightarrow> real ptr \<Rightarrow> real ptr \<Rightarrow> real ptr \<Rightarrow> nat \<Rightarrow> real" where
  "g_diff_val D valid C_prev X C C_diff H_diff d =
     (if valid then c_term_val D X C C_diff H_diff d * sigmoid (deref X d)
                      * (1 - tanh_T (deref X (3 * D + d)) * tanh_T (deref X (3 * D + d)))
      else 0)"

definition x_diff_val ::
  "nat \<Rightarrow> bool \<Rightarrow> real ptr \<Rightarrow> real ptr \<Rightarrow> real ptr \<Rightarrow> real ptr \<Rightarrow> real ptr \<Rightarrow> nat \<Rightarrow> real" where
  "x_diff_val D valid C_prev X C C_diff H_diff r =
     (if r < D then i_diff_val D valid C_prev X C C_diff H_diff r
      else if r < 2 * D then f_diff_val D valid C_prev X C C_diff H_diff (r - D)
      else if r < 3 * D then o_diff_val D valid C_prev X C C_diff H_diff (r - 2 * D)
      else g_diff_val D valid C_prev X C C_diff H_diff (r - 3 * D))"

section \<open>The loops, solved\<close>

declare LSTMUnit_d.simps [simp del] LSTMUnit_n.simps [simp del]
declare LSTMUnitGradient_d.simps [simp del] LSTMUnitGradient_n.simps [simp del]

subsection \<open>Forward\<close>

lemma LSTMUnit_body_eq:
  "LSTMUnit_body D valid C_prev X d (C, H) =
     (store C d (cell_val D valid C_prev X d), store H d (hidden_val D valid C_prev X d))"
  by (simp add: LSTMUnit_body_def cell_val_def hidden_val_def Let_def)

lemma LSTMUnit_d_eq:
  "LSTMUnit_d D valid C_prev X d0 (C, H) =
     ((\<lambda>k. if snd C + d0 \<le> k \<and> k < snd C + D then cell_val D valid C_prev X (k - snd C) else fst C k, snd C),
      (\<lambda>k. if snd H + d0 \<le> k \<and> k < snd H + D then hidden_val D valid C_prev X (k - snd H) else fst H k, snd H))"
proof (induction D valid C_prev X d0 "(C, H)" arbitrary: C H rule: LSTMUnit_d.induct)
  case (1 D valid C_prev X d)
  show ?case
  proof (cases "d < D")
    case True
    have "LSTMUnit_d D valid C_prev X d (C, H) =
          LSTMUnit_d D valid C_prev X (d + 1)
            (store C d (cell_val D valid C_prev X d), store H d (hidden_val D valid C_prev X d))"
      using True by (subst LSTMUnit_d.simps) (simp add: LSTMUnit_body_eq)
    also have "\<dots> = ((\<lambda>k. if snd C + d \<le> k \<and> k < snd C + D then cell_val D valid C_prev X (k - snd C) else fst C k, snd C),
      (\<lambda>k. if snd H + d \<le> k \<and> k < snd H + D then hidden_val D valid C_prev X (k - snd H) else fst H k, snd H))"
      using True by (subst 1[OF True]) (auto simp: LSTMUnit_body_eq store_def fun_eq_iff)
    finally show ?thesis .
  next
    case False
    then show ?thesis
      by (subst LSTMUnit_d.simps) (auto simp: prod_eq_iff fun_eq_iff)
  qed
qed


lemma advance_advance: "advance (advance p a) b = advance p (a + b)"
  by (simp add: advance_def add.assoc)

lemma advance_0: "advance p 0 = p"
  by (simp add: advance_def)

lemma LSTMUnit_n_step:
  assumes "n < N"
  shows "LSTMUnit_n N D t seqLengths n (C_prev, X, C, H) =
         LSTMUnit_n N D t seqLengths (n + 1)
           (advance C_prev D, advance X (4 * D),
            ((\<lambda>k. if snd C \<le> k \<and> k < snd C + D
                  then cell_val D (t <s deref seqLengths n) C_prev X (k - snd C) else fst C k),
             snd C + D),
            ((\<lambda>k. if snd H \<le> k \<and> k < snd H + D
                  then hidden_val D (t <s deref seqLengths n) C_prev X (k - snd H) else fst H k),
             snd H + D))"
  using assms
  by (subst LSTMUnit_n.simps) (simp add: LSTMUnit_d_eq advance_def Let_def)

lemma LSTMUnit_n_done: "\<not> n < N \<Longrightarrow> LSTMUnit_n N D t seqLengths n P = P"
  by (subst LSTMUnit_n.simps) simp

lemma LSTMUnit_n_outside:
  "case LSTMUnit_n N D t seqLengths n (C_prev, X, C, H) of
     (C_prev', X', C', H') \<Rightarrow>
       (kc < snd C \<or> snd C + (N - n) * D \<le> kc \<longrightarrow> fst C' kc = fst C kc) \<and>
       (kh < snd H \<or> snd H + (N - n) * D \<le> kh \<longrightarrow> fst H' kh = fst H kh)"
proof (induction "N - n" arbitrary: n C_prev X C H)
  case 0
  then show ?case by (simp add: LSTMUnit_n_done)
next
  case (Suc x)
  let ?C1 = "((\<lambda>k. if snd C \<le> k \<and> k < snd C + D
                  then cell_val D (t <s deref seqLengths n) C_prev X (k - snd C) else fst C k),
             snd C + D)"
  let ?H1 = "((\<lambda>k. if snd H \<le> k \<and> k < snd H + D
                  then hidden_val D (t <s deref seqLengths n) C_prev X (k - snd H) else fst H k),
             snd H + D)"
  from Suc.hyps(2) have lt: "n < N" and x: "x = N - (n + 1)"
    by arith+
  from lt have e: "(N - n) * D = D + (N - (n + 1)) * D"
    by (metis Suc.hyps(2) x mult_Suc)
  show ?case
    unfolding LSTMUnit_n_step[OF lt] e
    using Suc.hyps(1)[where n = "n + 1" and C_prev = "advance C_prev D" and X = "advance X (4 * D)"
        and C = ?C1 and H = ?H1, OF x]
    by (auto split: prod.splits)
qed

lemma LSTMUnit_n_inside:
  "j < N - n \<Longrightarrow> d < D \<Longrightarrow>
   (case LSTMUnit_n N D t seqLengths n (C_prev, X, C, H) of
     (C_prev', X', C', H') \<Rightarrow>
       fst C' (snd C + j * D + d) =
         cell_val D (t <s deref seqLengths (n + j)) (advance C_prev (j * D)) (advance X (j * (4 * D))) d \<and>
       fst H' (snd H + j * D + d) =
         hidden_val D (t <s deref seqLengths (n + j)) (advance C_prev (j * D)) (advance X (j * (4 * D))) d)"
proof (induction j arbitrary: n C_prev X C H)
  case 0
  let ?C1 = "((\<lambda>k. if snd C \<le> k \<and> k < snd C + D
                  then cell_val D (t <s deref seqLengths n) C_prev X (k - snd C) else fst C k),
             snd C + D)"
  let ?H1 = "((\<lambda>k. if snd H \<le> k \<and> k < snd H + D
                  then hidden_val D (t <s deref seqLengths n) C_prev X (k - snd H) else fst H k),
             snd H + D)"
  from 0 have lt: "n < N" by simp
  show ?case
    unfolding LSTMUnit_n_step[OF lt]
    using LSTMUnit_n_outside[where kc = "snd C + d" and C = ?C1 and N = N and n = "n + 1" and D = D
        and kh = "snd H + d" and H = ?H1 and t = t and seqLengths = seqLengths
        and C_prev = "advance C_prev D" and X = "advance X (4 * D)"] 0
    by (auto split: prod.splits simp: advance_0)
next
  case (Suc j)
  let ?C1 = "((\<lambda>k. if snd C \<le> k \<and> k < snd C + D
                  then cell_val D (t <s deref seqLengths n) C_prev X (k - snd C) else fst C k),
             snd C + D)"
  let ?H1 = "((\<lambda>k. if snd H \<le> k \<and> k < snd H + D
                  then hidden_val D (t <s deref seqLengths n) C_prev X (k - snd H) else fst H k),
             snd H + D)"
  from Suc.prems have lt: "n < N" and j: "j < N - (n + 1)" by auto
  show ?case
    unfolding LSTMUnit_n_step[OF lt]
    using Suc.IH[where n = "n + 1" and C_prev = "advance C_prev D" and X = "advance X (4 * D)"
        and C = ?C1 and H = ?H1, OF j Suc.prems(2)]
    by (auto split: prod.splits simp: advance_advance add.assoc)
qed

subsection \<open>Backward\<close>

lemma LSTMUnitGradient_body_eq:
  "LSTMUnitGradient_body D valid C_prev X C H C_diff H_diff d (C_prev_diff, X_diff) =
     (store C_prev_diff d (c_prev_diff_val D valid C_prev X C C_diff H_diff d),
      store (store (store (store X_diff d (i_diff_val D valid C_prev X C C_diff H_diff d))
         (D + d) (f_diff_val D valid C_prev X C C_diff H_diff d))
         (2 * D + d) (o_diff_val D valid C_prev X C C_diff H_diff d))
         (3 * D + d) (g_diff_val D valid C_prev X C C_diff H_diff d))"
  by (simp add: LSTMUnitGradient_body_def c_prev_diff_val_def i_diff_val_def f_diff_val_def
      o_diff_val_def g_diff_val_def c_term_val_def Let_def)

lemma LSTMUnitGradient_d_eq:
  "LSTMUnitGradient_d D valid C_prev X C H C_diff H_diff d0 (C_prev_diff, X_diff) =
     ((\<lambda>k. if snd C_prev_diff + d0 \<le> k \<and> k < snd C_prev_diff + D
           then c_prev_diff_val D valid C_prev X C C_diff H_diff (k - snd C_prev_diff)
           else fst C_prev_diff k, snd C_prev_diff),
      (\<lambda>k. if snd X_diff + d0 \<le> k \<and> k < snd X_diff + D
           then i_diff_val D valid C_prev X C C_diff H_diff (k - snd X_diff)
           else if snd X_diff + D + d0 \<le> k \<and> k < snd X_diff + 2 * D
           then f_diff_val D valid C_prev X C C_diff H_diff (k - snd X_diff - D)
           else if snd X_diff + 2 * D + d0 \<le> k \<and> k < snd X_diff + 3 * D
           then o_diff_val D valid C_prev X C C_diff H_diff (k - snd X_diff - 2 * D)
           else if snd X_diff + 3 * D + d0 \<le> k \<and> k < snd X_diff + 4 * D
           then g_diff_val D valid C_prev X C C_diff H_diff (k - snd X_diff - 3 * D)
           else fst X_diff k, snd X_diff))"
proof (induction D valid C_prev X C H C_diff H_diff d0 "(C_prev_diff, X_diff)"
    arbitrary: C_prev_diff X_diff rule: LSTMUnitGradient_d.induct)
  case (1 D valid C_prev X C H C_diff H_diff d)
  show ?case
  proof (cases "d < D")
    case True
    let ?out = "LSTMUnitGradient_body D valid C_prev X C H C_diff H_diff d (C_prev_diff, X_diff)"
    have "LSTMUnitGradient_d D valid C_prev X C H C_diff H_diff d (C_prev_diff, X_diff) =
          LSTMUnitGradient_d D valid C_prev X C H C_diff H_diff (d + 1) (fst ?out, snd ?out)"
      using True by (subst LSTMUnitGradient_d.simps) simp
    also have "\<dots> = ((\<lambda>k. if snd C_prev_diff + d \<le> k \<and> k < snd C_prev_diff + D
           then c_prev_diff_val D valid C_prev X C C_diff H_diff (k - snd C_prev_diff)
           else fst C_prev_diff k, snd C_prev_diff),
      (\<lambda>k. if snd X_diff + d \<le> k \<and> k < snd X_diff + D
           then i_diff_val D valid C_prev X C C_diff H_diff (k - snd X_diff)
           else if snd X_diff + D + d \<le> k \<and> k < snd X_diff + 2 * D
           then f_diff_val D valid C_prev X C C_diff H_diff (k - snd X_diff - D)
           else if snd X_diff + 2 * D + d \<le> k \<and> k < snd X_diff + 3 * D
           then o_diff_val D valid C_prev X C C_diff H_diff (k - snd X_diff - 2 * D)
           else if snd X_diff + 3 * D + d \<le> k \<and> k < snd X_diff + 4 * D
           then g_diff_val D valid C_prev X C C_diff H_diff (k - snd X_diff - 3 * D)
           else fst X_diff k, snd X_diff))"
      using True
      apply (subst 1[OF True])
       apply simp
      apply (simp only: LSTMUnitGradient_body_eq store_def prod.inject fst_conv snd_conv)
      apply (rule conjI)
       apply (auto simp: fun_eq_iff)[1]
      apply (rule conjI)
       apply (rule ext)
       apply (simp only: fun_upd_apply)
       apply (auto)[1]
         apply (subgoal_tac "k = snd X_diff + 3 * D + d", simp, arith)
        apply (subgoal_tac "k = snd X_diff + 2 * D + d", simp, arith)
       apply (subgoal_tac "k = snd X_diff + D + d", simp, arith)
      apply simp
      done
    finally show ?thesis .
  next
    case False
    then show ?thesis
      by (subst LSTMUnitGradient_d.simps) (auto simp: prod_eq_iff fun_eq_iff)
  qed
qed


lemma LSTMUnitGradient_d_0:
  "LSTMUnitGradient_d D valid C_prev X C H C_diff H_diff 0 (C_prev_diff, X_diff) =
     ((\<lambda>k. if snd C_prev_diff \<le> k \<and> k < snd C_prev_diff + D
           then c_prev_diff_val D valid C_prev X C C_diff H_diff (k - snd C_prev_diff)
           else fst C_prev_diff k, snd C_prev_diff),
      (\<lambda>k. if snd X_diff \<le> k \<and> k < snd X_diff + 4 * D
           then x_diff_val D valid C_prev X C C_diff H_diff (k - snd X_diff)
           else fst X_diff k, snd X_diff))"
  unfolding LSTMUnitGradient_d_eq
  by (auto simp: fun_eq_iff x_diff_val_def)

lemma LSTMUnitGradient_n_step:
  assumes "n < N"
  shows "LSTMUnitGradient_n N D t seqLengths n
           (C_prev, X, C, H, C_diff, H_diff, C_prev_diff, X_diff) =
         LSTMUnitGradient_n N D t seqLengths (n + 1)
           (advance C_prev D, advance X (4 * D), advance C D, advance H D,
            advance C_diff D, advance H_diff D,
            ((\<lambda>k. if snd C_prev_diff \<le> k \<and> k < snd C_prev_diff + D
                  then c_prev_diff_val D (t <s deref seqLengths n) C_prev X C C_diff H_diff
                         (k - snd C_prev_diff)
                  else fst C_prev_diff k),
             snd C_prev_diff + D),
            ((\<lambda>k. if snd X_diff \<le> k \<and> k < snd X_diff + 4 * D
                  then x_diff_val D (t <s deref seqLengths n) C_prev X C C_diff H_diff
                         (k - snd X_diff)
                  else fst X_diff k),
             snd X_diff + 4 * D))"
  using assms
  by (subst LSTMUnitGradient_n.simps) (simp add: LSTMUnitGradient_d_0 advance_def Let_def)

lemma LSTMUnitGradient_n_done: "\<not> n < N \<Longrightarrow> LSTMUnitGradient_n N D t seqLengths n P = P"
  by (subst LSTMUnitGradient_n.simps) simp

lemma LSTMUnitGradient_n_outside:
  "case LSTMUnitGradient_n N D t seqLengths n
          (C_prev, X, C, H, C_diff, H_diff, C_prev_diff, X_diff) of
     (C_prev', X', C', H', C_diff', H_diff', C_prev_diff', X_diff') \<Rightarrow>
       (kc < snd C_prev_diff \<or> snd C_prev_diff + (N - n) * D \<le> kc
          \<longrightarrow> fst C_prev_diff' kc = fst C_prev_diff kc) \<and>
       (kx < snd X_diff \<or> snd X_diff + (N - n) * (4 * D) \<le> kx
          \<longrightarrow> fst X_diff' kx = fst X_diff kx)"
proof (induction "N - n" arbitrary: n C_prev X C H C_diff H_diff C_prev_diff X_diff)
  case 0
  then show ?case by (simp add: LSTMUnitGradient_n_done)
next
  case (Suc x)
  let ?C1 = "((\<lambda>k. if snd C_prev_diff \<le> k \<and> k < snd C_prev_diff + D
                  then c_prev_diff_val D (t <s deref seqLengths n) C_prev X C C_diff H_diff
                         (k - snd C_prev_diff)
                  else fst C_prev_diff k),
             snd C_prev_diff + D)"
  let ?X1 = "((\<lambda>k. if snd X_diff \<le> k \<and> k < snd X_diff + 4 * D
                  then x_diff_val D (t <s deref seqLengths n) C_prev X C C_diff H_diff
                         (k - snd X_diff)
                  else fst X_diff k),
             snd X_diff + 4 * D)"
  from Suc.hyps(2) have lt: "n < N" and x: "x = N - (n + 1)"
    by arith+
  have e: "(N - n) * D = D + (N - (n + 1)) * D"
      "(N - n) * (4 * D) = 4 * D + (N - (n + 1)) * (4 * D)"
    by (metis Suc.hyps(2) x mult_Suc)+
  show ?case
    unfolding LSTMUnitGradient_n_step[OF lt] e
    using Suc.hyps(1)[where n = "n + 1" and C_prev = "advance C_prev D"
        and X = "advance X (4 * D)" and C = "advance C D" and H = "advance H D"
        and C_diff = "advance C_diff D" and H_diff = "advance H_diff D"
        and C_prev_diff = ?C1 and X_diff = ?X1, OF x]
    by (auto split: prod.splits)
qed

lemma LSTMUnitGradient_n_inside:
  "j < N - n \<Longrightarrow>
   (case LSTMUnitGradient_n N D t seqLengths n
          (C_prev, X, C, H, C_diff, H_diff, C_prev_diff, X_diff) of
     (C_prev', X', C', H', C_diff', H_diff', C_prev_diff', X_diff') \<Rightarrow>
       (d < D \<longrightarrow>
         fst C_prev_diff' (snd C_prev_diff + j * D + d) =
           c_prev_diff_val D (t <s deref seqLengths (n + j)) (advance C_prev (j * D))
             (advance X (j * (4 * D))) (advance C (j * D)) (advance C_diff (j * D))
             (advance H_diff (j * D)) d) \<and>
       (r < 4 * D \<longrightarrow>
         fst X_diff' (snd X_diff + j * (4 * D) + r) =
           x_diff_val D (t <s deref seqLengths (n + j)) (advance C_prev (j * D))
             (advance X (j * (4 * D))) (advance C (j * D)) (advance C_diff (j * D))
             (advance H_diff (j * D)) r))"
proof (induction j arbitrary: n C_prev X C H C_diff H_diff C_prev_diff X_diff)
  case 0
  let ?C1 = "((\<lambda>k. if snd C_prev_diff \<le> k \<and> k < snd C_prev_diff + D
                  then c_prev_diff_val D (t <s deref seqLengths n) C_prev X C C_diff H_diff
                         (k - snd C_prev_diff)
                  else fst C_prev_diff k),
             snd C_prev_diff + D)"
  let ?X1 = "((\<lambda>k. if snd X_diff \<le> k \<and> k < snd X_diff + 4 * D
                  then x_diff_val D (t <s deref seqLengths n) C_prev X C C_diff H_diff
                         (k - snd X_diff)
                  else fst X_diff k),
             snd X_diff + 4 * D)"
  from 0 have lt: "n < N" by simp
  show ?case
    unfolding LSTMUnitGradient_n_step[OF lt]
    using LSTMUnitGradient_n_outside[where kc = "snd C_prev_diff + d" and C_prev_diff = ?C1
        and N = N and n = "n + 1" and D = D
        and kx = "snd X_diff + r" and X_diff = ?X1 and t = t and seqLengths = seqLengths
        and C_prev = "advance C_prev D" and X = "advance X (4 * D)"
        and C = "advance C D" and H = "advance H D"
        and C_diff = "advance C_diff D" and H_diff = "advance H_diff D"]
    by (auto split: prod.splits simp: advance_0)
next
  case (Suc j)
  let ?C1 = "((\<lambda>k. if snd C_prev_diff \<le> k \<and> k < snd C_prev_diff + D
                  then c_prev_diff_val D (t <s deref seqLengths n) C_prev X C C_diff H_diff
                         (k - snd C_prev_diff)
                  else fst C_prev_diff k),
             snd C_prev_diff + D)"
  let ?X1 = "((\<lambda>k. if snd X_diff \<le> k \<and> k < snd X_diff + 4 * D
                  then x_diff_val D (t <s deref seqLengths n) C_prev X C C_diff H_diff
                         (k - snd X_diff)
                  else fst X_diff k),
             snd X_diff + 4 * D)"
  from Suc.prems have lt: "n < N" and j: "j < N - (n + 1)" by auto
  show ?case
    unfolding LSTMUnitGradient_n_step[OF lt]
    using Suc.IH[where n = "n + 1" and C_prev = "advance C_prev D"
        and X = "advance X (4 * D)" and C = "advance C D" and H = "advance H D"
        and C_diff = "advance C_diff D" and H_diff = "advance H_diff D"
        and C_prev_diff = ?C1 and X_diff = ?X1, OF j]
    by (auto split: prod.splits simp: advance_advance add.assoc)
qed

subsection \<open>The kernels as functions of the position\<close>

lemma index_split:
  "k < n * D \<Longrightarrow> k div D < n \<and> k mod D < D \<and> k div D * D + k mod D = (k::nat)"
  by (cases "D = 0") (auto simp: less_mult_imp_div_less)

lemma LSTMUnit_written:
  assumes "n < N" "d < D"
  shows "fst (LSTMUnit N D t C_prev X seqLengths C H) (n * D + d) =
           cell_val D (t <s seqLengths n) (C_prev, n * D) (X, n * (4 * D)) d"
    and "snd (LSTMUnit N D t C_prev X seqLengths C H) (n * D + d) =
           hidden_val D (t <s seqLengths n) (C_prev, n * D) (X, n * (4 * D)) d"
  using LSTMUnit_n_inside[where j = n and N = N and n = 0 and d = d and D = D and t = t
      and seqLengths = "(seqLengths, 0)" and C_prev = "(C_prev, 0)" and X = "(X, 0)"
      and C = "(C, 0)" and H = "(H, 0)"] assms
  by (auto simp: LSTMUnit_def advance_def deref_def split: prod.splits)

lemma LSTMUnit_unwritten:
  assumes "N * D \<le> k"
  shows "fst (LSTMUnit N D t C_prev X seqLengths C H) k = C k"
    and "snd (LSTMUnit N D t C_prev X seqLengths C H) k = H k"
  using LSTMUnit_n_outside[where kc = k and kh = k and N = N and n = 0 and D = D and t = t
      and seqLengths = "(seqLengths, 0)" and C_prev = "(C_prev, 0)" and X = "(X, 0)"
      and C = "(C, 0)" and H = "(H, 0)"] assms
  by (auto simp: LSTMUnit_def split: prod.splits)

lemma LSTMUnit_char:
  "LSTMUnit N D t C_prev X seqLengths C H =
     ((\<lambda>k. if k < N * D
           then cell_val D (t <s seqLengths (k div D)) (C_prev, k div D * D)
                  (X, k div D * (4 * D)) (k mod D)
           else C k),
      (\<lambda>k. if k < N * D
           then hidden_val D (t <s seqLengths (k div D)) (C_prev, k div D * D)
                  (X, k div D * (4 * D)) (k mod D)
           else H k))"
proof -
  have "fst (LSTMUnit N D t C_prev X seqLengths C H) k =
        (if k < N * D
           then cell_val D (t <s seqLengths (k div D)) (C_prev, k div D * D)
                  (X, k div D * (4 * D)) (k mod D)
           else C k)" for k
    using LSTMUnit_written(1)[of "k div D" N "k mod D" D t C_prev X seqLengths C H]
      LSTMUnit_unwritten(1)[of N D k t C_prev X seqLengths C H] index_split[of k N D]
    by auto
  moreover have "snd (LSTMUnit N D t C_prev X seqLengths C H) k =
        (if k < N * D
           then hidden_val D (t <s seqLengths (k div D)) (C_prev, k div D * D)
                  (X, k div D * (4 * D)) (k mod D)
           else H k)" for k
    using LSTMUnit_written(2)[of "k div D" N "k mod D" D t C_prev X seqLengths C H]
      LSTMUnit_unwritten(2)[of N D k t C_prev X seqLengths C H] index_split[of k N D]
    by auto
  ultimately show ?thesis
    by (simp add: prod_eq_iff fun_eq_iff)
qed

lemma LSTMUnitGradient_written:
  assumes "n < N"
  shows "d < D \<Longrightarrow>
         fst (LSTMUnitGradient N D t C_prev X seqLengths C H C_diff H_diff C_prev_diff X_diff)
             (n * D + d) =
           c_prev_diff_val D (t <s seqLengths n) (C_prev, n * D) (X, n * (4 * D)) (C, n * D)
             (C_diff, n * D) (H_diff, n * D) d"
    and "r < 4 * D \<Longrightarrow>
         snd (LSTMUnitGradient N D t C_prev X seqLengths C H C_diff H_diff C_prev_diff X_diff)
             (n * (4 * D) + r) =
           x_diff_val D (t <s seqLengths n) (C_prev, n * D) (X, n * (4 * D)) (C, n * D)
             (C_diff, n * D) (H_diff, n * D) r"
  using LSTMUnitGradient_n_inside[where j = n and N = N and n = 0 and d = d and r = r and D = D
      and t = t and seqLengths = "(seqLengths, 0)" and C_prev = "(C_prev, 0)" and X = "(X, 0)"
      and C = "(C, 0)" and H = "(H, 0)" and C_diff = "(C_diff, 0)" and H_diff = "(H_diff, 0)"
      and C_prev_diff = "(C_prev_diff, 0)" and X_diff = "(X_diff, 0)"] assms
  by (auto simp: LSTMUnitGradient_def advance_def deref_def split: prod.splits)

lemma LSTMUnitGradient_unwritten:
  shows "N * D \<le> k \<Longrightarrow>
         fst (LSTMUnitGradient N D t C_prev X seqLengths C H C_diff H_diff C_prev_diff X_diff) k
           = C_prev_diff k"
    and "N * (4 * D) \<le> k' \<Longrightarrow>
         snd (LSTMUnitGradient N D t C_prev X seqLengths C H C_diff H_diff C_prev_diff X_diff) k'
           = X_diff k'"
  using LSTMUnitGradient_n_outside[where kc = k and kx = k' and N = N and n = 0 and D = D
      and t = t and seqLengths = "(seqLengths, 0)" and C_prev = "(C_prev, 0)" and X = "(X, 0)"
      and C = "(C, 0)" and H = "(H, 0)" and C_diff = "(C_diff, 0)" and H_diff = "(H_diff, 0)"
      and C_prev_diff = "(C_prev_diff, 0)" and X_diff = "(X_diff, 0)"]
  by (auto simp: LSTMUnitGradient_def split: prod.splits)

lemma LSTMUnitGradient_char:
  "LSTMUnitGradient N D t C_prev X seqLengths C H C_diff H_diff C_prev_diff X_diff =
     ((\<lambda>k. if k < N * D
           then c_prev_diff_val D (t <s seqLengths (k div D)) (C_prev, k div D * D)
                  (X, k div D * (4 * D)) (C, k div D * D) (C_diff, k div D * D)
                  (H_diff, k div D * D) (k mod D)
           else C_prev_diff k),
      (\<lambda>k. if k < N * (4 * D)
           then x_diff_val D (t <s seqLengths (k div (4 * D))) (C_prev, k div (4 * D) * D)
                  (X, k div (4 * D) * (4 * D)) (C, k div (4 * D) * D) (C_diff, k div (4 * D) * D)
                  (H_diff, k div (4 * D) * D) (k mod (4 * D))
           else X_diff k))"
proof -
  let ?G = "LSTMUnitGradient N D t C_prev X seqLengths C H C_diff H_diff C_prev_diff X_diff"
  have "fst ?G k =
        (if k < N * D
           then c_prev_diff_val D (t <s seqLengths (k div D)) (C_prev, k div D * D)
                  (X, k div D * (4 * D)) (C, k div D * D) (C_diff, k div D * D)
                  (H_diff, k div D * D) (k mod D)
           else C_prev_diff k)" for k
    using LSTMUnitGradient_written(1)[of "k div D" N "k mod D" D t C_prev X seqLengths C H
        C_diff H_diff C_prev_diff X_diff]
      LSTMUnitGradient_unwritten(1)[of N D k t C_prev X seqLengths C H
        C_diff H_diff C_prev_diff X_diff] index_split[of k N D]
    by auto
  moreover have "snd ?G k =
        (if k < N * (4 * D)
           then x_diff_val D (t <s seqLengths (k div (4 * D))) (C_prev, k div (4 * D) * D)
                  (X, k div (4 * D) * (4 * D)) (C, k div (4 * D) * D) (C_diff, k div (4 * D) * D)
                  (H_diff, k div (4 * D) * D) (k mod (4 * D))
           else X_diff k)" for k
    using LSTMUnitGradient_written(2)[of "k div (4 * D)" N "k mod (4 * D)" D t C_prev X seqLengths C H
        C_diff H_diff C_prev_diff X_diff]
      LSTMUnitGradient_unwritten(2)[of N D k t C_prev X seqLengths C H
        C_diff H_diff C_prev_diff X_diff] index_split[of k N "4 * D"]
    by auto
  ultimately show ?thesis
    by (simp add: prod_eq_iff fun_eq_iff)
qed

subsection \<open>The recomputing variant against the code\<close>

lemma LSTMUnitGradient_recompute_body_eq:
  assumes "valid \<Longrightarrow> deref C d = cell_val D valid C_prev X d"
  shows "LSTMUnitGradient_recompute_body D valid C_prev X C H C_diff H_diff d out =
         LSTMUnitGradient_body D valid C_prev X C H C_diff H_diff d out"
  using assms
  by (cases valid)
     (simp_all add: LSTMUnitGradient_recompute_body_def LSTMUnitGradient_body_def cell_val_def Let_def)

lemma LSTMUnitGradient_recompute_d_eq:
  assumes "\<And>d. valid \<Longrightarrow> d < D \<Longrightarrow> deref C d = cell_val D valid C_prev X d"
  shows "LSTMUnitGradient_recompute_d D valid C_prev X C H C_diff H_diff d0 out =
         LSTMUnitGradient_d D valid C_prev X C H C_diff H_diff d0 out"
  using assms
proof (induction D valid C_prev X C H C_diff H_diff d0 out
    rule: LSTMUnitGradient_recompute_d.induct)
  case (1 D valid C_prev X C H C_diff H_diff d out)
  show ?case
  proof (cases "d < D")
    case True
    have b: "LSTMUnitGradient_recompute_body D valid C_prev X C H C_diff H_diff d out =
             LSTMUnitGradient_body D valid C_prev X C H C_diff H_diff d out"
      using True "1.prems" by (intro LSTMUnitGradient_recompute_body_eq) simp
    show ?thesis
      using True "1.IH"[OF True "1.prems"]
      by (subst LSTMUnitGradient_recompute_d.simps, subst LSTMUnitGradient_d.simps)
         (simp add: b del: LSTMUnitGradient_recompute_d.simps)
  next
    case False
    then show ?thesis
      by (subst LSTMUnitGradient_recompute_d.simps, subst LSTMUnitGradient_d.simps)
         (simp del: LSTMUnitGradient_recompute_d.simps)
  qed
qed

lemma LSTMUnitGradient_recompute_n_eq:
  assumes "\<And>j d. j < N - n \<Longrightarrow> d < D \<Longrightarrow> t <s deref seqLengths (n + j) \<Longrightarrow>
             deref (advance C (j * D)) d =
             cell_val D True (advance C_prev (j * D)) (advance X (j * (4 * D))) d"
  shows "LSTMUnitGradient_recompute_n N D t seqLengths n
           (C_prev, X, C, H, C_diff, H_diff, C_prev_diff, X_diff) =
         LSTMUnitGradient_n N D t seqLengths n
           (C_prev, X, C, H, C_diff, H_diff, C_prev_diff, X_diff)"
  using assms
proof (induction "N - n" arbitrary: n C_prev X C H C_diff H_diff C_prev_diff X_diff)
  case 0
  then show ?case
    by (subst LSTMUnitGradient_recompute_n.simps, subst LSTMUnitGradient_n.simps)
       (simp del: LSTMUnitGradient_recompute_n.simps)
next
  case (Suc x)
  from Suc.hyps(2) have lt: "n < N" and x: "x = N - (n + 1)"
    by arith+
  let ?valid = "t <s deref seqLengths n"
  have d: "LSTMUnitGradient_recompute_d D ?valid C_prev X C H C_diff H_diff 0 out =
           LSTMUnitGradient_d D ?valid C_prev X C H C_diff H_diff 0 out" for out
  proof (rule LSTMUnitGradient_recompute_d_eq)
    fix d assume "?valid" "d < D"
    with Suc.prems[of 0 d] lt show "deref C d = cell_val D ?valid C_prev X d"
      by (simp add: advance_0)
  qed
  have r: "LSTMUnitGradient_recompute_n N D t seqLengths (Suc n)
             (advance C_prev D, advance X (4 * D), advance C D, advance H D,
              advance C_diff D, advance H_diff D, Cp, Xd) =
           LSTMUnitGradient_n N D t seqLengths (Suc n)
             (advance C_prev D, advance X (4 * D), advance C D, advance H D,
              advance C_diff D, advance H_diff D, Cp, Xd)" for Cp Xd
    unfolding Suc_eq_plus1
  proof (rule Suc.hyps(1)[OF x])
    fix j d assume "j < N - (n + 1)" "d < D" "t <s deref seqLengths (n + 1 + j)"
    with Suc.prems[of "Suc j" d]
    show "deref (advance (advance C D) (j * D)) d =
          cell_val D True (advance (advance C_prev D) (j * D))
            (advance (advance X (4 * D)) (j * (4 * D))) d"
      by (simp add: advance_advance)
  qed
  show ?case
    using lt
    by (subst LSTMUnitGradient_recompute_n.simps, subst LSTMUnitGradient_n.simps)
       (simp add: d r Let_def split: prod.splits
          del: LSTMUnitGradient_recompute_n.simps LSTMUnitGradient_recompute_d.simps)
qed

lemma LSTMUnitGradient_recompute_eq:
  assumes "\<And>n d. n < N \<Longrightarrow> d < D \<Longrightarrow> t <s seqLengths n \<Longrightarrow>
             C (n * D + d) = cell_val D True (C_prev, n * D) (X, n * (4 * D)) d"
  shows "LSTMUnitGradient_recompute N D t C_prev X seqLengths C H C_diff H_diff C_prev_diff X_diff =
         LSTMUnitGradient N D t C_prev X seqLengths C H C_diff H_diff C_prev_diff X_diff"
proof -
  have "LSTMUnitGradient_recompute_n N D t (seqLengths, 0) 0
           ((C_prev, 0), (X, 0), (C, 0), (H, 0), (C_diff, 0), (H_diff, 0),
            (C_prev_diff, 0), (X_diff, 0)) =
        LSTMUnitGradient_n N D t (seqLengths, 0) 0
           ((C_prev, 0), (X, 0), (C, 0), (H, 0), (C_diff, 0), (H_diff, 0),
            (C_prev_diff, 0), (X_diff, 0))"
  proof (rule LSTMUnitGradient_recompute_n_eq)
    fix j d assume "j < N - 0" "d < D" "t <s deref (seqLengths, 0) (0 + j)"
    with assms[of j d]
    show "deref (advance (C, 0) (j * D)) d =
          cell_val D True (advance (C_prev, 0) (j * D)) (advance (X, 0) (j * (4 * D))) d"
      by (simp add: advance_def deref_def)
  qed
  then show ?thesis
    by (simp add: LSTMUnitGradient_recompute_def LSTMUnitGradient_def)
qed

subsection \<open>Values of the activation helpers\<close>

lemma sigmoid_0: "sigmoid 0 = 1 / 2"
  by (simp add: sigmoid_def)

lemma tanh_T_0: "tanh_T 0 = 0"
  by (simp add: tanh_T_def sigmoid_def)

lemma tanh_T_1_neq: "tanh_T 1 \<noteq> 0"
  by (simp add: tanh_T_def sigmoid_def field_simps)

section \<open>The forward and backward steps\<close>

text \<open>
  In the statements below \<open>fst\<close> and \<open>snd\<close> of a kernel are its two output regions on
  return: \<open>C\<close> and \<open>H\<close> for \<open>LSTMUnit\<close>, \<open>C_prev_diff\<close> and \<open>X_diff\<close> for
  \<open>LSTMUnitGradient\<close>.  Row \<open>n\<close> of a buffer of width \<open>D\<close> starts at \<open>n * D\<close>, row \<open>n\<close> of
  the packed gate buffers at \<open>n * (4 * D)\<close>.
\<close>

text \<open>
  Claim C1.  For every batch index \<open>n < N\<close> with \<open>t < seqLengths[n]\<close> and every feature
  index \<open>d < D\<close>, \<open>LSTMUnit\<close> computes \<open>i\<close>, \<open>f\<close>, \<open>o\<close> as the sigmoids of the gate
  pre-activations at offsets \<open>0\<close>, \<open>D\<close>, \<open>2D\<close> of row \<open>n\<close> of \<open>X\<close> and \<open>g\<close> as the tanh of
  the one at offset \<open>3D\<close>, and writes \<open>C[n][d] = f * C_prev[n][d] + i * g\<close> and
  \<open>H[n][d] = o * tanh(C[n][d])\<close>.
\<close>

theorem LSTMUnit_valid:
  assumes "n < N" and "d < D" and "sint t < sint (seqLengths n)"
  shows "let i = sigmoid (X (n * (4 * D) + d));
             f = sigmoid (X (n * (4 * D) + 1 * D + d));
             o' = sigmoid (X (n * (4 * D) + 2 * D + d));
             g = tanh_T (X (n * (4 * D) + 3 * D + d));
             C' = fst (LSTMUnit N D t C_prev X seqLengths C H);
             H' = snd (LSTMUnit N D t C_prev X seqLengths C H)
         in C' (n * D + d) = f * C_prev (n * D + d) + i * g \<and>
            H' (n * D + d) = o' * tanh_T (C' (n * D + d))"
  using assms
  by (simp add: LSTMUnit_written cell_val_def hidden_val_def deref_def word_sless_alt Let_def
      add.assoc)

theorem LSTMUnit_valid_witness:
  "(1::nat) < 2 \<and> (1::nat) < 2 \<and> sint (0::int32) < sint (1::int32) \<and>
   fst (LSTMUnit 2 2 0 (\<lambda>k. 2 * real k) (\<lambda>_. 0) (\<lambda>_. 1) (\<lambda>_. 0) (\<lambda>_. 0)) 3 = 3 \<and>
   snd (LSTMUnit 2 2 0 (\<lambda>k. 2 * real k) (\<lambda>_. 0) (\<lambda>_. 1) (\<lambda>_. 0) (\<lambda>_. 0)) 3 = 1 / 2 * tanh_T 3"
  using LSTMUnit_valid[of 1 2 1 2 0 "\<lambda>_. 1" "\<lambda>_. 0" "\<lambda>k. 2 * real k" "\<lambda>_. 0" "\<lambda>_. 0"]
  by (simp add: Let_def sigmoid_0 tanh_T_0)

text \<open>
  Claim C2.  For every batch index \<open>n < N\<close> with \<open>t < seqLengths[n]\<close> and every feature
  index \<open>d < D\<close>, \<open>LSTMUnitGradient\<close> writes, with \<open>i\<close>, \<open>f\<close>, \<open>o\<close>, \<open>g\<close> recomputed from
  the gate pre-activations, \<open>tanh_c\<close> the tanh of the cell value \<open>c\<close> (which the kernel
  reads from its input \<open>C[n][d]\<close>) and
  \<open>c_term = C_diff[n][d] + H_diff[n][d] * o * (1 - tanh_c^2)\<close>:
  \<open>C_prev_diff[n][d] = c_term * f\<close>, and into the packed gate-gradient row
  \<open>c_term * g * i * (1 - i)\<close> at offset \<open>0\<close>, \<open>c_term * c_prev * f * (1 - f)\<close> at offset \<open>D\<close>,
  \<open>H_diff[n][d] * tanh_c * o * (1 - o)\<close> at offset \<open>2D\<close> and \<open>c_term * i * (1 - g * g)\<close> at
  offset \<open>3D\<close>.
\<close>

theorem LSTMUnitGradient_valid:
  assumes "n < N" and "d < D" and "sint t < sint (seqLengths n)"
  shows "let i = sigmoid (X (n * (4 * D) + d));
             f = sigmoid (X (n * (4 * D) + 1 * D + d));
             o' = sigmoid (X (n * (4 * D) + 2 * D + d));
             g = tanh_T (X (n * (4 * D) + 3 * D + d));
             c_prev = C_prev (n * D + d);
             c = C (n * D + d);
             tanh_c = tanh_T c;
             c_term = C_diff (n * D + d) + H_diff (n * D + d) * o' * (1 - tanh_c ^ 2);
             C_prev_diff' =
               fst (LSTMUnitGradient N D t C_prev X seqLengths C H C_diff H_diff C_prev_diff X_diff);
             X_diff' =
               snd (LSTMUnitGradient N D t C_prev X seqLengths C H C_diff H_diff C_prev_diff X_diff)
         in C_prev_diff' (n * D + d) = c_term * f \<and>
            X_diff' (n * (4 * D) + d) = c_term * g * i * (1 - i) \<and>
            X_diff' (n * (4 * D) + D + d) = c_term * c_prev * f * (1 - f) \<and>
            X_diff' (n * (4 * D) + 2 * D + d) = H_diff (n * D + d) * tanh_c * o' * (1 - o') \<and>
            X_diff' (n * (4 * D) + 3 * D + d) = c_term * i * (1 - g * g)"
proof -
  let ?G = "LSTMUnitGradient N D t C_prev X seqLengths C H C_diff H_diff C_prev_diff X_diff"
  have v: "t <s seqLengths n"
    using assms(3) by (simp add: word_sless_alt)
  have r: "d < 4 * D" "D + d < 4 * D" "2 * D + d < 4 * D" "3 * D + d < 4 * D"
    using assms(2) by simp_all
  note w = LSTMUnitGradient_written[OF assms(1), of _ D t C_prev X seqLengths C H C_diff H_diff
      C_prev_diff X_diff]
  have "fst ?G (n * D + d) =
          c_prev_diff_val D True (C_prev, n * D) (X, n * (4 * D)) (C, n * D)
             (C_diff, n * D) (H_diff, n * D) d"
    using w(1)[OF assms(2)] v by simp
  moreover have "snd ?G (n * (4 * D) + d) =
          i_diff_val D True (C_prev, n * D) (X, n * (4 * D)) (C, n * D)
             (C_diff, n * D) (H_diff, n * D) d"
    using w(2)[OF r(1)] v assms(2) by (simp add: x_diff_val_def)
  moreover have "snd ?G (n * (4 * D) + D + d) =
          f_diff_val D True (C_prev, n * D) (X, n * (4 * D)) (C, n * D)
             (C_diff, n * D) (H_diff, n * D) d"
    using w(2)[OF r(2)] v assms(2) by (simp add: x_diff_val_def add.assoc)
  moreover have "snd ?G (n * (4 * D) + 2 * D + d) =
          o_diff_val D True (C_prev, n * D) (X, n * (4 * D)) (C, n * D)
             (C_diff, n * D) (H_diff, n * D) d"
    using w(2)[OF r(3)] v assms(2) by (simp add: x_diff_val_def add.assoc)
  moreover have "snd ?G (n * (4 * D) + 3 * D + d) =
          g_diff_val D True (C_prev, n * D) (X, n * (4 * D)) (C, n * D)
             (C_diff, n * D) (H_diff, n * D) d"
    using w(2)[OF r(4)] v assms(2) by (simp add: x_diff_val_def add.assoc)
  ultimately show ?thesis
    by (simp add: c_prev_diff_val_def i_diff_val_def f_diff_val_def o_diff_val_def g_diff_val_def
        c_term_val_def deref_def Let_def power2_eq_square add.assoc)
qed


theorem LSTMUnitGradient_valid_witness:
  "(1::nat) < 2 \<and> (1::nat) < 2 \<and> sint (0::int32) < sint (1::int32) \<and>
   fst (LSTMUnitGradient 2 2 0 (\<lambda>_. 4) (\<lambda>_. 0) (\<lambda>_. 1) (\<lambda>_. 0) (\<lambda>_. 7) (\<lambda>_. 8) (\<lambda>_. 0)
          (\<lambda>_. 5) (\<lambda>_. 5)) 3 = 4 \<and>
   snd (LSTMUnitGradient 2 2 0 (\<lambda>_. 4) (\<lambda>_. 0) (\<lambda>_. 1) (\<lambda>_. 0) (\<lambda>_. 7) (\<lambda>_. 8) (\<lambda>_. 0)
          (\<lambda>_. 5) (\<lambda>_. 5)) 9 = 0 \<and>
   snd (LSTMUnitGradient 2 2 0 (\<lambda>_. 4) (\<lambda>_. 0) (\<lambda>_. 1) (\<lambda>_. 0) (\<lambda>_. 7) (\<lambda>_. 8) (\<lambda>_. 0)
          (\<lambda>_. 5) (\<lambda>_. 5)) 11 = 8 \<and>
   snd (LSTMUnitGradient 2 2 0 (\<lambda>_. 4) (\<lambda>_. 0) (\<lambda>_. 1) (\<lambda>_. 0) (\<lambda>_. 7) (\<lambda>_. 8) (\<lambda>_. 0)
          (\<lambda>_. 5) (\<lambda>_. 5)) 13 = 0 \<and>
   snd (LSTMUnitGradient 2 2 0 (\<lambda>_. 4) (\<lambda>_. 0) (\<lambda>_. 1) (\<lambda>_. 0) (\<lambda>_. 7) (\<lambda>_. 8) (\<lambda>_. 0)
          (\<lambda>_. 5) (\<lambda>_. 5)) 15 = 4"
  using LSTMUnitGradient_valid[of 1 2 1 2 0 "\<lambda>_. 1" "\<lambda>_. 0" "\<lambda>_. 4" "\<lambda>_. 0" "\<lambda>_. 8" "\<lambda>_. 0"
      "\<lambda>_. 7" "\<lambda>_. 5" "\<lambda>_. 5"]
  by (simp add: Let_def sigmoid_0 tanh_T_0)

text \<open>
  Claim C3.  For every batch index \<open>n < N\<close> with \<open>t \<ge> seqLengths[n]\<close> (a negative
  \<open>seqLengths[n]\<close> included) and every feature index \<open>d < D\<close>, \<open>LSTMUnit\<close> writes
  \<open>H[n][d] = 0\<close> and \<open>C[n][d] = C_prev[n][d]\<close>.  The kernel has no error result: it is a
  total function and such inputs take the frozen branch.
\<close>

theorem LSTMUnit_frozen:
  assumes "n < N" and "d < D" and "sint (seqLengths n) \<le> sint t"
  shows "snd (LSTMUnit N D t C_prev X seqLengths C H) (n * D + d) = 0 \<and>
         fst (LSTMUnit N D t C_prev X seqLengths C H) (n * D + d) = C_prev (n * D + d)"
  using assms
  by (simp add: LSTMUnit_written cell_val_def hidden_val_def deref_def word_sless_alt)

theorem LSTMUnit_frozen_witness:
  "(1::nat) < 2 \<and> (1::nat) < 2 \<and> sint (- 1 :: int32) \<le> sint (0::int32) \<and>
   snd (LSTMUnit 2 2 0 real (\<lambda>_. 9) (\<lambda>_. - 1) (\<lambda>_. 5) (\<lambda>_. 5)) 3 = 0 \<and>
   fst (LSTMUnit 2 2 0 real (\<lambda>_. 9) (\<lambda>_. - 1) (\<lambda>_. 5) (\<lambda>_. 5)) 3 = 3"
  using LSTMUnit_frozen[of 1 2 1 2 "\<lambda>_. - 1" 0 real "\<lambda>_. 9" "\<lambda>_. 5" "\<lambda>_. 5"]
  by simp

text \<open>
  Claim C4.  For every batch index \<open>n < N\<close> with \<open>t \<ge> seqLengths[n]\<close> and every feature
  index \<open>d < D\<close>, \<open>LSTMUnitGradient\<close> writes \<open>C_prev_diff[n][d] = C_diff[n][d]\<close> and \<open>0\<close>
  into the four gate-gradient slots (offsets \<open>0\<close>, \<open>D\<close>, \<open>2D\<close>, \<open>3D\<close>) of row \<open>n\<close> of
  \<open>X_diff\<close>.
\<close>

theorem LSTMUnitGradient_frozen:
  assumes "n < N" and "d < D" and "sint (seqLengths n) \<le> sint t"
  shows "fst (LSTMUnitGradient N D t C_prev X seqLengths C H C_diff H_diff C_prev_diff X_diff)
           (n * D + d) = C_diff (n * D + d) \<and>
         snd (LSTMUnitGradient N D t C_prev X seqLengths C H C_diff H_diff C_prev_diff X_diff)
           (n * (4 * D) + d) = 0 \<and>
         snd (LSTMUnitGradient N D t C_prev X seqLengths C H C_diff H_diff C_prev_diff X_diff)
           (n * (4 * D) + D + d) = 0 \<and>
         snd (LSTMUnitGradient N D t C_prev X seqLengths C H C_diff H_diff C_prev_diff X_diff)
           (n * (4 * D) + 2 * D + d) = 0 \<and>
         snd (LSTMUnitGradient N D t C_prev X seqLengths C H C_diff H_diff C_prev_diff X_diff)
           (n * (4 * D) + 3 * D + d) = 0"
proof -
  let ?G = "LSTMUnitGradient N D t C_prev X seqLengths C H C_diff H_diff C_prev_diff X_diff"
  have v: "\<not> t <s seqLengths n"
    using assms(3) by (simp add: word_sless_alt)
  note w = LSTMUnitGradient_written[OF assms(1), of _ D t C_prev X seqLengths C H C_diff H_diff
      C_prev_diff X_diff]
  have z: "r < 4 * D \<Longrightarrow> snd ?G (n * (4 * D) + r) = 0" for r
    using w(2)[of r] v
    by (simp add: x_diff_val_def i_diff_val_def f_diff_val_def o_diff_val_def g_diff_val_def)
  have "fst ?G (n * D + d) = C_diff (n * D + d)"
    using w(1)[OF assms(2)] v by (simp add: c_prev_diff_val_def deref_def)
  moreover have "snd ?G (n * (4 * D) + d) = 0"
    using z[of d] assms(2) by simp
  moreover have "snd ?G (n * (4 * D) + D + d) = 0"
    using z[of "D + d"] assms(2) by (simp add: add.assoc)
  moreover have "snd ?G (n * (4 * D) + 2 * D + d) = 0"
    using z[of "2 * D + d"] assms(2) by (simp add: add.assoc)
  moreover have "snd ?G (n * (4 * D) + 3 * D + d) = 0"
    using z[of "3 * D + d"] assms(2) by (simp add: add.assoc)
  ultimately show ?thesis by simp
qed

theorem LSTMUnitGradient_frozen_witness:
  "(1::nat) < 2 \<and> (1::nat) < 2 \<and> sint (3::int32) \<le> sint (5::int32) \<and>
   fst (LSTMUnitGradient 2 2 5 (\<lambda>_. 4) (\<lambda>_. 1) (\<lambda>_. 3) (\<lambda>_. 2) (\<lambda>_. 7) real (\<lambda>_. 6)
          (\<lambda>_. 5) (\<lambda>_. 5)) 3 = 3 \<and>
   snd (LSTMUnitGradient 2 2 5 (\<lambda>_. 4) (\<lambda>_. 1) (\<lambda>_. 3) (\<lambda>_. 2) (\<lambda>_. 7) real (\<lambda>_. 6)
          (\<lambda>_. 5) (\<lambda>_. 5)) 9 = 0 \<and>
   snd (LSTMUnitGradient 2 2 5 (\<lambda>_. 4) (\<lambda>_. 1) (\<lambda>_. 3) (\<lambda>_. 2) (\<lambda>_. 7) real (\<lambda>_. 6)
          (\<lambda>_. 5) (\<lambda>_. 5)) 11 = 0 \<and>
   snd (LSTMUnitGradient 2 2 5 (\<lambda>_. 4) (\<lambda>_. 1) (\<lambda>_. 3) (\<lambda>_. 2) (\<lambda>_. 7) real (\<lambda>_. 6)
          (\<lambda>_. 5) (\<lambda>_. 5)) 13 = 0 \<and>
   snd (LSTMUnitGradient 2 2 5 (\<lambda>_. 4) (\<lambda>_. 1) (\<lambda>_. 3) (\<lambda>_. 2) (\<lambda>_. 7) real (\<lambda>_. 6)
          (\<lambda>_. 5) (\<lambda>_. 5)) 15 = 0"
  using LSTMUnitGradient_frozen[of 1 2 1 2 "\<lambda>_. 3" 5 "\<lambda>_. 4" "\<lambda>_. 1" "\<lambda>_. 2" "\<lambda>_. 7" real "\<lambda>_. 6"
      "\<lambda>_. 5" "\<lambda>_. 5"]
  by simp

section \<open>The cell state in the backward step\<close>

text \<open>
  Claim C5, as stated: in the valid branch \<open>LSTMUnitGradient\<close> recomputes every forward
  intermediate \<open>i, f, o, g, c_prev, c, tanh_c\<close> instead of relying on cached forward
  outputs, so that its outputs equal those of the variant that computes \<open>c\<close> as
  \<open>f * c_prev + i * g\<close> instead of reading \<open>C[n][d]\<close>.  The code reads \<open>c\<close> from \<open>C\<close>: for
  \<open>N = 1\<close>, \<open>D = 1\<close>, \<open>t = 0\<close>, \<open>seqLengths = [1]\<close>, \<open>C_prev = [0]\<close>, \<open>X = [0, 0, 0, 0]\<close>,
  \<open>C_diff = [0]\<close>, \<open>H_diff = [1]\<close> and the cell-output input \<open>C = [1]\<close>, the code writes
  \<open>tanh(1) / 4\<close> into the output-gate slot of \<open>X_diff\<close> and the variant writes \<open>0\<close>.
\<close>

theorem LSTMUnitGradient_reads_C:
  "snd (LSTMUnitGradient 1 1 0 (\<lambda>_. 0) (\<lambda>_. 0) (\<lambda>_. 1) (\<lambda>_. 1) (\<lambda>_. 0) (\<lambda>_. 0) (\<lambda>_. 1)
          (\<lambda>_. 0) (\<lambda>_. 0)) 2 \<noteq>
   snd (LSTMUnitGradient_recompute 1 1 0 (\<lambda>_. 0) (\<lambda>_. 0) (\<lambda>_. 1) (\<lambda>_. 1) (\<lambda>_. 0) (\<lambda>_. 0) (\<lambda>_. 1)
          (\<lambda>_. 0) (\<lambda>_. 0)) 2"
proof -
  have v: "(0::int32) <s 1"
    by (simp add: word_sless_alt)
  have "snd (LSTMUnitGradient 1 1 0 (\<lambda>_. 0) (\<lambda>_. 0) (\<lambda>_. 1) (\<lambda>_. 1) (\<lambda>_. 0) (\<lambda>_. 0) (\<lambda>_. 1)
          (\<lambda>_. 0) (\<lambda>_. 0)) 2 = tanh_T 1 * (1 / 2) * (1 - 1 / 2)"
    by (simp add: LSTMUnitGradient_def LSTMUnitGradient_n.simps LSTMUnitGradient_d.simps
        LSTMUnitGradient_body_def deref_def store_def advance_def Let_def sigmoid_0 v)
  moreover have "snd (LSTMUnitGradient_recompute 1 1 0 (\<lambda>_. 0) (\<lambda>_. 0) (\<lambda>_. 1) (\<lambda>_. 1) (\<lambda>_. 0)
          (\<lambda>_. 0) (\<lambda>_. 1) (\<lambda>_. 0) (\<lambda>_. 0)) 2 = 0"
    by (simp add: LSTMUnitGradient_recompute_def LSTMUnitGradient_recompute_n.simps
        LSTMUnitGradient_recompute_d.simps LSTMUnitGradient_recompute_body_def
        deref_def store_def advance_def Let_def sigmoid_0 tanh_T_0 v)
  ultimately show ?thesis
    using tanh_T_1_neq by simp
qed

text \<open>
  Claim C5, as the code has it.  In the valid branch \<open>LSTMUnitGradient\<close> recomputes \<open>i\<close>,
  \<open>f\<close>, \<open>o\<close>, \<open>g\<close> from the gate pre-activations and \<open>tanh_c\<close> from \<open>c\<close>, and reads \<open>c_prev\<close>
  from \<open>C_prev\<close> and \<open>c\<close> from its cell-output input \<open>C[n][d]\<close>.  Its outputs equal those of
  the variant that computes \<open>c\<close> as \<open>f * c_prev + i * g\<close> whenever \<open>C[n][d]\<close> holds that
  value at every position of every valid sequence; it does when \<open>C\<close> is the cell state
  \<open>LSTMUnit\<close> wrote for the same inputs.
\<close>

theorem LSTMUnitGradient_recompute_agrees:
  "((\<forall>n<N. \<forall>d<D. sint t < sint (seqLengths n) \<longrightarrow>
       C (n * D + d) =
         sigmoid (X (n * (4 * D) + 1 * D + d)) * C_prev (n * D + d)
         + sigmoid (X (n * (4 * D) + d)) * tanh_T (X (n * (4 * D) + 3 * D + d))) \<longrightarrow>
    LSTMUnitGradient N D t C_prev X seqLengths C H C_diff H_diff C_prev_diff X_diff =
    LSTMUnitGradient_recompute N D t C_prev X seqLengths C H C_diff H_diff C_prev_diff X_diff) \<and>
   LSTMUnitGradient N D t C_prev X seqLengths
       (fst (LSTMUnit N D t C_prev X seqLengths C0 H0)) H C_diff H_diff C_prev_diff X_diff =
   LSTMUnitGradient_recompute N D t C_prev X seqLengths
       (fst (LSTMUnit N D t C_prev X seqLengths C0 H0)) H C_diff H_diff C_prev_diff X_diff"
proof (intro conjI impI)
  assume a: "\<forall>n<N. \<forall>d<D. sint t < sint (seqLengths n) \<longrightarrow>
       C (n * D + d) =
         sigmoid (X (n * (4 * D) + 1 * D + d)) * C_prev (n * D + d)
         + sigmoid (X (n * (4 * D) + d)) * tanh_T (X (n * (4 * D) + 3 * D + d))"
  show "LSTMUnitGradient N D t C_prev X seqLengths C H C_diff H_diff C_prev_diff X_diff =
    LSTMUnitGradient_recompute N D t C_prev X seqLengths C H C_diff H_diff C_prev_diff X_diff"
  proof (rule LSTMUnitGradient_recompute_eq[symmetric])
    fix n d assume "n < N" "d < D" "t <s seqLengths n"
    with a show "C (n * D + d) = cell_val D True (C_prev, n * D) (X, n * (4 * D)) d"
      by (simp add: cell_val_def deref_def word_sless_alt add.assoc)
  qed
next
  show "LSTMUnitGradient N D t C_prev X seqLengths
       (fst (LSTMUnit N D t C_prev X seqLengths C0 H0)) H C_diff H_diff C_prev_diff X_diff =
   LSTMUnitGradient_recompute N D t C_prev X seqLengths
       (fst (LSTMUnit N D t C_prev X seqLengths C0 H0)) H C_diff H_diff C_prev_diff X_diff"
    by (rule LSTMUnitGradient_recompute_eq[symmetric]) (simp add: LSTMUnit_written)
qed

theorem LSTMUnitGradient_recompute_agrees_witness:
  "sint (0::int32) < sint (1::int32) \<and>
   (3::real) = sigmoid 0 * 6 + sigmoid 0 * tanh_T 0 \<and>
   LSTMUnitGradient 1 1 0 (\<lambda>_. 6) (\<lambda>_. 0) (\<lambda>_. 1) (\<lambda>_. 3) (\<lambda>_. 0) (\<lambda>_. 1) (\<lambda>_. 1) (\<lambda>_. 0) (\<lambda>_. 0) =
   LSTMUnitGradient_recompute 1 1 0 (\<lambda>_. 6) (\<lambda>_. 0) (\<lambda>_. 1) (\<lambda>_. 3) (\<lambda>_. 0) (\<lambda>_. 1) (\<lambda>_. 1)
     (\<lambda>_. 0) (\<lambda>_. 0)"
  using LSTMUnitGradient_recompute_agrees[where N = 1 and D = 1 and t = 0
      and seqLengths = "\<lambda>_. 1" and C = "\<lambda>_. 3" and X = "\<lambda>_. 0" and C_prev = "\<lambda>_. 6"
      and H = "\<lambda>_. 0" and C_diff = "\<lambda>_. 1" and H_diff = "\<lambda>_. 1" and C_prev_diff = "\<lambda>_. 0"
      and X_diff = "\<lambda>_. 0", THEN conjunct1]
  by (simp add: sigmoid_0 tanh_T_0)

section \<open>The validity mask\<close>

text \<open>
  Claim C6.  \<open>LSTMUnit\<close> and \<open>LSTMUnitGradient\<close> decide validity for sequence \<open>n\<close> by the
  same predicate \<open>t < seqLengths[n]\<close>, a function of \<open>t\<close> and \<open>seqLengths[n]\<close> alone, used at
  every feature position \<open>d < D\<close> of the sequence: each output of either kernel in row \<open>n\<close>
  is the valid-branch value when \<open>t < seqLengths[n]\<close> and the frozen value otherwise.
  In particular \<open>t = seqLengths[n] - 1\<close> is valid and \<open>t = seqLengths[n]\<close> is frozen.
\<close>

theorem valid_is_t_less_seqLength:
  assumes "n < N" and "d < D"
  shows "let valid = (sint t < sint (seqLengths n));
             fwd = LSTMUnit N D t C_prev X seqLengths C' H';
             bwd = LSTMUnitGradient N D t C_prev X seqLengths C H C_diff H_diff C_prev_diff X_diff;
             C_prev_n = (C_prev, n * D); X_n = (X, n * (4 * D)); C_n = (C, n * D);
             C_diff_n = (C_diff, n * D); H_diff_n = (H_diff, n * D)
         in fst fwd (n * D + d) = cell_val D valid C_prev_n X_n d \<and>
            snd fwd (n * D + d) = hidden_val D valid C_prev_n X_n d \<and>
            fst bwd (n * D + d) = c_prev_diff_val D valid C_prev_n X_n C_n C_diff_n H_diff_n d \<and>
            snd bwd (n * (4 * D) + d) = i_diff_val D valid C_prev_n X_n C_n C_diff_n H_diff_n d \<and>
            snd bwd (n * (4 * D) + D + d) =
              f_diff_val D valid C_prev_n X_n C_n C_diff_n H_diff_n d \<and>
            snd bwd (n * (4 * D) + 2 * D + d) =
              o_diff_val D valid C_prev_n X_n C_n C_diff_n H_diff_n d \<and>
            snd bwd (n * (4 * D) + 3 * D + d) =
              g_diff_val D valid C_prev_n X_n C_n C_diff_n H_diff_n d \<and>
            (sint t = sint (seqLengths n) - 1 \<longrightarrow> valid) \<and>
            (t = seqLengths n \<longrightarrow> \<not> valid)"
proof -
  let ?G = "LSTMUnitGradient N D t C_prev X seqLengths C H C_diff H_diff C_prev_diff X_diff"
  note w = LSTMUnitGradient_written[OF assms(1), of _ D t C_prev X seqLengths C H C_diff H_diff
      C_prev_diff X_diff]
  have x: "r < 4 * D \<Longrightarrow> snd ?G (n * (4 * D) + r) =
        x_diff_val D (sint t < sint (seqLengths n)) (C_prev, n * D) (X, n * (4 * D)) (C, n * D)
          (C_diff, n * D) (H_diff, n * D) r" for r
    using w(2)[of r] by (simp add: word_sless_alt)
  have "fst ?G (n * D + d) =
        c_prev_diff_val D (sint t < sint (seqLengths n)) (C_prev, n * D) (X, n * (4 * D))
          (C, n * D) (C_diff, n * D) (H_diff, n * D) d"
    using w(1)[OF assms(2)] by (simp add: word_sless_alt)
  moreover have "snd ?G (n * (4 * D) + d) =
        i_diff_val D (sint t < sint (seqLengths n)) (C_prev, n * D) (X, n * (4 * D))
          (C, n * D) (C_diff, n * D) (H_diff, n * D) d"
    using x[of d] assms(2) by (simp add: x_diff_val_def)
  moreover have "snd ?G (n * (4 * D) + D + d) =
        f_diff_val D (sint t < sint (seqLengths n)) (C_prev, n * D) (X, n * (4 * D))
          (C, n * D) (C_diff, n * D) (H_diff, n * D) d"
    using x[of "D + d"] assms(2) by (simp add: x_diff_val_def add.assoc)
  moreover have "snd ?G (n * (4 * D) + 2 * D + d) =
        o_diff_val D (sint t < sint (seqLengths n)) (C_prev, n * D) (X, n * (4 * D))
          (C, n * D) (C_diff, n * D) (H_diff, n * D) d"
    using x[of "2 * D + d"] assms(2) by (simp add: x_diff_val_def add.assoc)
  moreover have "snd ?G (n * (4 * D) + 3 * D + d) =
        g_diff_val D (sint t < sint (seqLengths n)) (C_prev, n * D) (X, n * (4 * D))
          (C, n * D) (C_diff, n * D) (H_diff, n * D) d"
    using x[of "3 * D + d"] assms(2) by (simp add: x_diff_val_def add.assoc)
  ultimately show ?thesis
    using assms by (simp add: Let_def LSTMUnit_written word_sless_alt)
qed

theorem valid_is_t_less_seqLength_witness:
  "(0::nat) < 1 \<and> sint (0::int32) = sint (1::int32) - 1 \<and> (1::int32) = 1 \<and>
   fst (LSTMUnit 1 1 0 (\<lambda>_. 2) (\<lambda>_. 0) (\<lambda>_. 1) (\<lambda>_. 0) (\<lambda>_. 0)) 0 = 1 \<and>
   fst (LSTMUnitGradient 1 1 0 (\<lambda>_. 2) (\<lambda>_. 0) (\<lambda>_. 1) (\<lambda>_. 0) (\<lambda>_. 0) (\<lambda>_. 8) (\<lambda>_. 0)
          (\<lambda>_. 0) (\<lambda>_. 0)) 0 = 4 \<and>
   fst (LSTMUnit 1 1 1 (\<lambda>_. 2) (\<lambda>_. 0) (\<lambda>_. 1) (\<lambda>_. 0) (\<lambda>_. 0)) 0 = 2 \<and>
   snd (LSTMUnit 1 1 1 (\<lambda>_. 2) (\<lambda>_. 0) (\<lambda>_. 1) (\<lambda>_. 0) (\<lambda>_. 0)) 0 = 0 \<and>
   fst (LSTMUnitGradient 1 1 1 (\<lambda>_. 2) (\<lambda>_. 0) (\<lambda>_. 1) (\<lambda>_. 0) (\<lambda>_. 0) (\<lambda>_. 8) (\<lambda>_. 0)
          (\<lambda>_. 0) (\<lambda>_. 0)) 0 = 8"
  using valid_is_t_less_seqLength[where n = 0 and N = 1 and d = 0 and D = 1 and t = 0
      and seqLengths = "\<lambda>_. 1" and C_prev = "\<lambda>_. 2" and X = "\<lambda>_. 0" and C' = "\<lambda>_. 0"
      and H' = "\<lambda>_. 0" and C = "\<lambda>_. 0" and H = "\<lambda>_. 0" and C_diff = "\<lambda>_. 8"
      and H_diff = "\<lambda>_. 0" and C_prev_diff = "\<lambda>_. 0" and X_diff = "\<lambda>_. 0"]
    valid_is_t_less_seqLength[where n = 0 and N = 1 and d = 0 and D = 1 and t = 1
      and seqLengths = "\<lambda>_. 1" and C_prev = "\<lambda>_. 2" and X = "\<lambda>_. 0" and C' = "\<lambda>_. 0"
      and H' = "\<lambda>_. 0" and C = "\<lambda>_. 0" and H = "\<lambda>_. 0" and C_diff = "\<lambda>_. 8"
      and H_diff = "\<lambda>_. 0" and C_prev_diff = "\<lambda>_. 0" and X_diff = "\<lambda>_. 0"]
  by (simp add: Let_def cell_val_def hidden_val_def c_prev_diff_val_def c_term_val_def
      deref_def sigmoid_0 tanh_T_0)

section \<open>The tanh helper\<close>

lemma LSTMUnitGradient_row:
  assumes "n < N" and "d < D"
  shows "fst (LSTMUnitGradient N D t C_prev X seqLengths C H C_diff H_diff C_prev_diff X_diff)
           (n * D + d) =
         c_prev_diff_val D (t <s seqLengths n) (C_prev, n * D) (X, n * (4 * D)) (C, n * D)
           (C_diff, n * D) (H_diff, n * D) d"
    and "snd (LSTMUnitGradient N D t C_prev X seqLengths C H C_diff H_diff C_prev_diff X_diff)
           (n * (4 * D) + d) =
         i_diff_val D (t <s seqLengths n) (C_prev, n * D) (X, n * (4 * D)) (C, n * D)
           (C_diff, n * D) (H_diff, n * D) d"
    and "snd (LSTMUnitGradient N D t C_prev X seqLengths C H C_diff H_diff C_prev_diff X_diff)
           (n * (4 * D) + D + d) =
         f_diff_val D (t <s seqLengths n) (C_prev, n * D) (X, n * (4 * D)) (C, n * D)
           (C_diff, n * D) (H_diff, n * D) d"
    and "snd (LSTMUnitGradient N D t C_prev X seqLengths C H C_diff H_diff C_prev_diff X_diff)
           (n * (4 * D) + 2 * D + d) =
         o_diff_val D (t <s seqLengths n) (C_prev, n * D) (X, n * (4 * D)) (C, n * D)
           (C_diff, n * D) (H_diff, n * D) d"
    and "snd (LSTMUnitGradient N D t C_prev X seqLengths C H C_diff H_diff C_prev_diff X_diff)
           (n * (4 * D) + 3 * D + d) =
         g_diff_val D (t <s seqLengths n) (C_prev, n * D) (X, n * (4 * D)) (C, n * D)
           (C_diff, n * D) (H_diff, n * D) d"
proof -
  let ?G = "LSTMUnitGradient N D t C_prev X seqLengths C H C_diff H_diff C_prev_diff X_diff"
  note w = LSTMUnitGradient_written[OF assms(1), of _ D t C_prev X seqLengths C H C_diff H_diff
      C_prev_diff X_diff]
  show "fst ?G (n * D + d) =
         c_prev_diff_val D (t <s seqLengths n) (C_prev, n * D) (X, n * (4 * D)) (C, n * D)
           (C_diff, n * D) (H_diff, n * D) d"
    by (rule w(1)[OF assms(2)])
  show "snd ?G (n * (4 * D) + d) =
         i_diff_val D (t <s seqLengths n) (C_prev, n * D) (X, n * (4 * D)) (C, n * D)
           (C_diff, n * D) (H_diff, n * D) d"
    using w(2)[of d] assms(2) by (simp add: x_diff_val_def)
  show "snd ?G (n * (4 * D) + D + d) =
         f_diff_val D (t <s seqLengths n) (C_prev, n * D) (X, n * (4 * D)) (C, n * D)
           (C_diff, n * D) (H_diff, n * D) d"
    using w(2)[of "D + d"] assms(2) by (simp add: x_diff_val_def add.assoc)
  show "snd ?G (n * (4 * D) + 2 * D + d) =
         o_diff_val D (t <s seqLengths n) (C_prev, n * D) (X, n * (4 * D)) (C, n * D)
           (C_diff, n * D) (H_diff, n * D) d"
    using w(2)[of "2 * D + d"] assms(2) by (simp add: x_diff_val_def add.assoc)
  show "snd ?G (n * (4 * D) + 3 * D + d) =
         g_diff_val D (t <s seqLengths n) (C_prev, n * D) (X, n * (4 * D)) (C, n * D)
           (C_diff, n * D) (H_diff, n * D) d"
    using w(2)[of "3 * D + d"] assms(2) by (simp add: x_diff_val_def add.assoc)
qed

text \<open>
  Claim C7.  For every \<open>x\<close>, \<open>sigmoid(x) = 1 / (1 + exp(-x))\<close> and
  \<open>tanh(x) = 2 * sigmoid(2 * x) - 1\<close>, and both kernels use this composite and no other
  tanh.  The helper is called at four places: for the candidate gate \<open>g\<close> and for \<open>tanh_c\<close>,
  in the forward and in the backward kernel.  In a valid sequence every output of either
  kernel is the source's expression with \<open>2 * sigmoid(2 * x) - 1\<close> written at each of them:
  the forward cell and hidden state, and the backward \<open>C_prev_diff\<close> and the four gate
  gradients \<open>i_diff\<close>, \<open>f_diff\<close>, \<open>o_diff\<close>, \<open>g_diff\<close>.
\<close>

theorem tanh_is_sigmoid_composite:
  "(\<forall>x. sigmoid x = 1 / (1 + exp (- x))) \<and>
   (\<forall>x. tanh_T x = 2 * sigmoid (2 * x) - 1) \<and>
   (\<forall>n<N. \<forall>d<D. sint t < sint (seqLengths n) \<longrightarrow>
      (let i = sigmoid (X (n * (4 * D) + d));
           f = sigmoid (X (n * (4 * D) + D + d));
           o' = sigmoid (X (n * (4 * D) + 2 * D + d));
           g = 2 * sigmoid (2 * X (n * (4 * D) + 3 * D + d)) - 1;
           c_prev = C_prev (n * D + d);
           fwd = LSTMUnit N D t C_prev X seqLengths C' H';
           tanh_c = 2 * sigmoid (2 * C (n * D + d)) - 1;
           c_term = C_diff (n * D + d) + H_diff (n * D + d) * o' * (1 - tanh_c * tanh_c);
           bwd = LSTMUnitGradient N D t C_prev X seqLengths C H C_diff H_diff C_prev_diff X_diff
       in fst fwd (n * D + d) = f * c_prev + i * g \<and>
          snd fwd (n * D + d) = o' * (2 * sigmoid (2 * fst fwd (n * D + d)) - 1) \<and>
          fst bwd (n * D + d) = c_term * f \<and>
          snd bwd (n * (4 * D) + d) = c_term * g * i * (1 - i) \<and>
          snd bwd (n * (4 * D) + D + d) = c_term * c_prev * f * (1 - f) \<and>
          snd bwd (n * (4 * D) + 2 * D + d) = H_diff (n * D + d) * tanh_c * o' * (1 - o') \<and>
          snd bwd (n * (4 * D) + 3 * D + d) = c_term * i * (1 - g * g)))"
proof (intro conjI allI impI)
  fix n d assume a: "n < N" "d < D" "sint t < sint (seqLengths n)"
  then have v: "t <s seqLengths n"
    by (simp add: word_sless_alt)
  note b = LSTMUnitGradient_row[OF a(1) a(2), of t C_prev X seqLengths C H C_diff H_diff
      C_prev_diff X_diff]
  note f = LSTMUnit_written[OF a(1) a(2), of t C_prev X seqLengths C' H']
  show "let i = sigmoid (X (n * (4 * D) + d));
           f = sigmoid (X (n * (4 * D) + D + d));
           o' = sigmoid (X (n * (4 * D) + 2 * D + d));
           g = 2 * sigmoid (2 * X (n * (4 * D) + 3 * D + d)) - 1;
           c_prev = C_prev (n * D + d);
           fwd = LSTMUnit N D t C_prev X seqLengths C' H';
           tanh_c = 2 * sigmoid (2 * C (n * D + d)) - 1;
           c_term = C_diff (n * D + d) + H_diff (n * D + d) * o' * (1 - tanh_c * tanh_c);
           bwd = LSTMUnitGradient N D t C_prev X seqLengths C H C_diff H_diff C_prev_diff X_diff
       in fst fwd (n * D + d) = f * c_prev + i * g \<and>
          snd fwd (n * D + d) = o' * (2 * sigmoid (2 * fst fwd (n * D + d)) - 1) \<and>
          fst bwd (n * D + d) = c_term * f \<and>
          snd bwd (n * (4 * D) + d) = c_term * g * i * (1 - i) \<and>
          snd bwd (n * (4 * D) + D + d) = c_term * c_prev * f * (1 - f) \<and>
          snd bwd (n * (4 * D) + 2 * D + d) = H_diff (n * D + d) * tanh_c * o' * (1 - o') \<and>
          snd bwd (n * (4 * D) + 3 * D + d) = c_term * i * (1 - g * g)"
    unfolding Let_def b f
    using v
    by (simp add: cell_val_def hidden_val_def c_prev_diff_val_def i_diff_val_def f_diff_val_def
        o_diff_val_def g_diff_val_def c_term_val_def deref_def tanh_T_def add.assoc)
qed (simp_all add: sigmoid_def tanh_T_def)

theorem tanh_is_sigmoid_composite_witness:
  "(1::nat) < 2 \<and> sint (0::int32) < sint (1::int32) \<and>
   sigmoid 0 = 1 / (1 + exp (- 0)) \<and> tanh_T 1 = 2 * sigmoid (2 * 1) - 1 \<and>
   fst (LSTMUnit 2 2 0 (\<lambda>_. 2) (\<lambda>k. if k = 15 then 1 else 0) (\<lambda>_. 1) (\<lambda>_. 0) (\<lambda>_. 0)) 3 =
     1 / 2 * 2 + 1 / 2 * (2 * sigmoid 2 - 1) \<and>
   snd (LSTMUnitGradient 2 2 0 (\<lambda>_. 2) (\<lambda>k. if k = 15 then 1 else 0) (\<lambda>_. 1) (\<lambda>_. 0) (\<lambda>_. 0)
          (\<lambda>_. 4) (\<lambda>_. 0) (\<lambda>_. 0) (\<lambda>_. 0)) 9 = 2 * sigmoid 2 - 1 \<and>
   snd (LSTMUnitGradient 2 2 0 (\<lambda>_. 2) (\<lambda>k. if k = 15 then 1 else 0) (\<lambda>_. 1) (\<lambda>_. 0) (\<lambda>_. 0)
          (\<lambda>_. 4) (\<lambda>_. 0) (\<lambda>_. 0) (\<lambda>_. 0)) 15 =
     2 * (1 - (2 * sigmoid 2 - 1) * (2 * sigmoid 2 - 1)) \<and>
   snd (LSTMUnit 2 2 0 (\<lambda>_. 2) (\<lambda>_. 0) (\<lambda>_. 1) (\<lambda>_. 0) (\<lambda>_. 0)) 3 =
     1 / 2 * (2 * sigmoid 2 - 1) \<and>
   snd (LSTMUnitGradient 2 2 0 (\<lambda>_. 2) (\<lambda>_. 0) (\<lambda>_. 1) (\<lambda>_. 1) (\<lambda>_. 0) (\<lambda>_. 0) (\<lambda>_. 4)
          (\<lambda>_. 0) (\<lambda>_. 0)) 13 = 2 * sigmoid 2 - 1"
proof -
  note w1 = tanh_is_sigmoid_composite[where N = 2 and D = 2 and t = 0
      and seqLengths = "\<lambda>_. 1" and C_prev = "\<lambda>_. 2" and X = "\<lambda>k. if k = 15 then 1 else 0"
      and C' = "\<lambda>_. 0" and H' = "\<lambda>_. 0" and C = "\<lambda>_. 0" and H = "\<lambda>_. 0" and C_diff = "\<lambda>_. 4"
      and H_diff = "\<lambda>_. 0" and C_prev_diff = "\<lambda>_. 0" and X_diff = "\<lambda>_. 0"]
  note w2 = tanh_is_sigmoid_composite[where N = 2 and D = 2 and t = 0
      and seqLengths = "\<lambda>_. 1" and C_prev = "\<lambda>_. 2" and X = "\<lambda>_. 0" and C' = "\<lambda>_. 0"
      and H' = "\<lambda>_. 0" and C = "\<lambda>_. 1" and H = "\<lambda>_. 0" and C_diff = "\<lambda>_. 0"
      and H_diff = "\<lambda>_. 4" and C_prev_diff = "\<lambda>_. 0" and X_diff = "\<lambda>_. 0"]
  have a: "(1::nat) < 2" "sint (0::int32) < sint (1::int32)"
    by simp_all
  have s: "sigmoid 0 = 1 / (1 + exp (- 0))" "tanh_T 1 = 2 * sigmoid (2 * 1) - 1"
    using w1[THEN conjunct1, rule_format, of 0] w1[THEN conjunct2, THEN conjunct1, rule_format, of 1]
    by simp_all
  have k1: "fst (LSTMUnit 2 2 0 (\<lambda>_. 2) (\<lambda>k. if k = 15 then 1 else 0) (\<lambda>_. 1) (\<lambda>_. 0) (\<lambda>_. 0)) 3 =
     1 / 2 * 2 + 1 / 2 * (2 * sigmoid 2 - 1) \<and>
   snd (LSTMUnitGradient 2 2 0 (\<lambda>_. 2) (\<lambda>k. if k = 15 then 1 else 0) (\<lambda>_. 1) (\<lambda>_. 0) (\<lambda>_. 0)
          (\<lambda>_. 4) (\<lambda>_. 0) (\<lambda>_. 0) (\<lambda>_. 0)) 9 = 2 * sigmoid 2 - 1 \<and>
   snd (LSTMUnitGradient 2 2 0 (\<lambda>_. 2) (\<lambda>k. if k = 15 then 1 else 0) (\<lambda>_. 1) (\<lambda>_. 0) (\<lambda>_. 0)
          (\<lambda>_. 4) (\<lambda>_. 0) (\<lambda>_. 0) (\<lambda>_. 0)) 15 =
     2 * (1 - (2 * sigmoid 2 - 1) * (2 * sigmoid 2 - 1))"
    using w1[THEN conjunct2, THEN conjunct2, rule_format, OF a(1) a(1) a(2)]
    by (simp add: Let_def sigmoid_0)
  have k2: "snd (LSTMUnit 2 2 0 (\<lambda>_. 2) (\<lambda>_. 0) (\<lambda>_. 1) (\<lambda>_. 0) (\<lambda>_. 0)) 3 =
     1 / 2 * (2 * sigmoid 2 - 1) \<and>
   snd (LSTMUnitGradient 2 2 0 (\<lambda>_. 2) (\<lambda>_. 0) (\<lambda>_. 1) (\<lambda>_. 1) (\<lambda>_. 0) (\<lambda>_. 0) (\<lambda>_. 4)
          (\<lambda>_. 0) (\<lambda>_. 0)) 13 = 2 * sigmoid 2 - 1"
    using w2[THEN conjunct2, THEN conjunct2, rule_format, OF a(1) a(1) a(2)]
    by (simp add: Let_def sigmoid_0)
  from a s k1 k2 show ?thesis
    by blast
qed

section \<open>Independence of the sequences\<close>

lemma fwd_val_cong:
  assumes "\<And>d. d < D \<Longrightarrow> C_prev (a + d) = C_prev' (a + d)"
    and "\<And>r. r < 4 * D \<Longrightarrow> X (b + r) = X' (b + r)"
    and "d < D"
  shows "cell_val D v (C_prev, a) (X, b) d = cell_val D v (C_prev', a) (X', b) d"
    and "hidden_val D v (C_prev, a) (X, b) d = hidden_val D v (C_prev', a) (X', b) d"
  using assms by (simp_all add: cell_val_def hidden_val_def deref_def)

lemma bwd_val_cong:
  assumes "\<And>d. d < D \<Longrightarrow> C_prev (a + d) = C_prev' (a + d)"
    and "\<And>r. r < 4 * D \<Longrightarrow> X (b + r) = X' (b + r)"
    and "\<And>d. d < D \<Longrightarrow> C (a + d) = C' (a + d)"
    and "\<And>d. d < D \<Longrightarrow> C_diff (a + d) = C_diff' (a + d)"
    and "\<And>d. d < D \<Longrightarrow> H_diff (a + d) = H_diff' (a + d)"
    and "d < D"
  shows "c_prev_diff_val D v (C_prev, a) (X, b) (C, a) (C_diff, a) (H_diff, a) d =
         c_prev_diff_val D v (C_prev', a) (X', b) (C', a) (C_diff', a) (H_diff', a) d"
    and "i_diff_val D v (C_prev, a) (X, b) (C, a) (C_diff, a) (H_diff, a) d =
         i_diff_val D v (C_prev', a) (X', b) (C', a) (C_diff', a) (H_diff', a) d"
    and "f_diff_val D v (C_prev, a) (X, b) (C, a) (C_diff, a) (H_diff, a) d =
         f_diff_val D v (C_prev', a) (X', b) (C', a) (C_diff', a) (H_diff', a) d"
    and "o_diff_val D v (C_prev, a) (X, b) (C, a) (C_diff, a) (H_diff, a) d =
         o_diff_val D v (C_prev', a) (X', b) (C', a) (C_diff', a) (H_diff', a) d"
    and "g_diff_val D v (C_prev, a) (X, b) (C, a) (C_diff, a) (H_diff, a) d =
         g_diff_val D v (C_prev', a) (X', b) (C', a) (C_diff', a) (H_diff', a) d"
  using assms
  by (simp_all add: c_prev_diff_val_def i_diff_val_def f_diff_val_def o_diff_val_def
      g_diff_val_def c_term_val_def deref_def)

lemma x_diff_val_cong:
  assumes "\<And>d. d < D \<Longrightarrow> C_prev (a + d) = C_prev' (a + d)"
    and "\<And>r. r < 4 * D \<Longrightarrow> X (b + r) = X' (b + r)"
    and "\<And>d. d < D \<Longrightarrow> C (a + d) = C' (a + d)"
    and "\<And>d. d < D \<Longrightarrow> C_diff (a + d) = C_diff' (a + d)"
    and "\<And>d. d < D \<Longrightarrow> H_diff (a + d) = H_diff' (a + d)"
    and "r < 4 * D"
  shows "x_diff_val D v (C_prev, a) (X, b) (C, a) (C_diff, a) (H_diff, a) r =
         x_diff_val D v (C_prev', a) (X', b) (C', a) (C_diff', a) (H_diff', a) r"
proof -
  note c = bwd_val_cong[of D C_prev a C_prev' X b X' C C' C_diff C_diff' H_diff H_diff',
      OF assms(1-5)]
  consider "r < D" | "D \<le> r" "r < 2 * D" | "2 * D \<le> r" "r < 3 * D" | "3 * D \<le> r"
    by linarith
  then show ?thesis
  proof cases
    case 1
    then show ?thesis by (simp add: x_diff_val_def c(2))
  next
    case 2
    then have "r - D < D" by simp
    with 2 show ?thesis by (simp add: x_diff_val_def c(3))
  next
    case 3
    then have "r - 2 * D < D" by simp
    with 3 show ?thesis by (simp add: x_diff_val_def c(4))
  next
    case 4
    with assms(6) have "r - 3 * D < D" by simp
    with 4 show ?thesis by (simp add: x_diff_val_def c(5))
  qed
qed

lemma slice_determines_outputs:
  assumes "n < N" and "n < N'"
    and "seqLengths n = seqLengths' n"
    and "\<forall>d<D. C_prev (n * D + d) = C_prev' (n * D + d)"
    and "\<forall>r<4 * D. X (n * (4 * D) + r) = X' (n * (4 * D) + r)"
  shows
    "(\<forall>d<D. fst (LSTMUnit N D t C_prev X seqLengths C0 H0) (n * D + d) =
             fst (LSTMUnit N' D t C_prev' X' seqLengths' C0' H0') (n * D + d) \<and>
            snd (LSTMUnit N D t C_prev X seqLengths C0 H0) (n * D + d) =
             snd (LSTMUnit N' D t C_prev' X' seqLengths' C0' H0') (n * D + d)) \<and>
     ((\<forall>d<D. C (n * D + d) = C' (n * D + d) \<and> C_diff (n * D + d) = C_diff' (n * D + d) \<and>
             H_diff (n * D + d) = H_diff' (n * D + d)) \<longrightarrow>
      (\<forall>d<D. fst (LSTMUnitGradient N D t C_prev X seqLengths C H C_diff H_diff
                    C_prev_diff X_diff) (n * D + d) =
              fst (LSTMUnitGradient N' D t C_prev' X' seqLengths' C' H' C_diff' H_diff'
                    C_prev_diff' X_diff') (n * D + d)) \<and>
      (\<forall>r<4 * D. snd (LSTMUnitGradient N D t C_prev X seqLengths C H C_diff H_diff
                    C_prev_diff X_diff) (n * (4 * D) + r) =
              snd (LSTMUnitGradient N' D t C_prev' X' seqLengths' C' H' C_diff' H_diff'
                    C_prev_diff' X_diff') (n * (4 * D) + r)))"
proof (intro conjI allI impI)
  fix d assume d: "d < D"
  note f = fwd_val_cong[of D C_prev "n * D" C_prev' X "n * (4 * D)" X' d "t <s seqLengths' n"]
  show "fst (LSTMUnit N D t C_prev X seqLengths C0 H0) (n * D + d) =
        fst (LSTMUnit N' D t C_prev' X' seqLengths' C0' H0') (n * D + d)"
    using assms d f(1) by (simp add: LSTMUnit_written)
  show "snd (LSTMUnit N D t C_prev X seqLengths C0 H0) (n * D + d) =
        snd (LSTMUnit N' D t C_prev' X' seqLengths' C0' H0') (n * D + d)"
    using assms d f(2) by (simp add: LSTMUnit_written)
next
  fix d
  assume b: "\<forall>d<D. C (n * D + d) = C' (n * D + d) \<and> C_diff (n * D + d) = C_diff' (n * D + d) \<and>
             H_diff (n * D + d) = H_diff' (n * D + d)" and d: "d < D"
  from bwd_val_cong(1)[of D C_prev "n * D" C_prev' X "n * (4 * D)" X' C C' C_diff C_diff'
      H_diff H_diff' d "t <s seqLengths' n"] assms b d
  show "fst (LSTMUnitGradient N D t C_prev X seqLengths C H C_diff H_diff
               C_prev_diff X_diff) (n * D + d) =
        fst (LSTMUnitGradient N' D t C_prev' X' seqLengths' C' H' C_diff' H_diff'
               C_prev_diff' X_diff') (n * D + d)"
    by (simp add: LSTMUnitGradient_written)
next
  fix r
  assume b: "\<forall>d<D. C (n * D + d) = C' (n * D + d) \<and> C_diff (n * D + d) = C_diff' (n * D + d) \<and>
             H_diff (n * D + d) = H_diff' (n * D + d)" and r: "r < 4 * D"
  from x_diff_val_cong[of D C_prev "n * D" C_prev' X "n * (4 * D)" X' C C' C_diff C_diff'
      H_diff H_diff' r "t <s seqLengths' n"] assms b r
  show "snd (LSTMUnitGradient N D t C_prev X seqLengths C H C_diff H_diff
               C_prev_diff X_diff) (n * (4 * D) + r) =
        snd (LSTMUnitGradient N' D t C_prev' X' seqLengths' C' H' C_diff' H_diff'
               C_prev_diff' X_diff') (n * (4 * D) + r)"
    by (simp add: LSTMUnitGradient_written)
qed

lemma writes_confined:
  "(\<forall>k. k < n * D \<or> (n + 1) * D \<le> k \<longrightarrow>
        fst (LSTMUnit (n + 1) D t C_prev X seqLengths C0 H0) k =
          fst (LSTMUnit n D t C_prev X seqLengths C0 H0) k \<and>
        snd (LSTMUnit (n + 1) D t C_prev X seqLengths C0 H0) k =
          snd (LSTMUnit n D t C_prev X seqLengths C0 H0) k \<and>
        fst (LSTMUnitGradient (n + 1) D t C_prev X seqLengths C H C_diff H_diff
               C_prev_diff X_diff) k =
          fst (LSTMUnitGradient n D t C_prev X seqLengths C H C_diff H_diff
               C_prev_diff X_diff) k) \<and>
   (\<forall>k. k < n * (4 * D) \<or> (n + 1) * (4 * D) \<le> k \<longrightarrow>
        snd (LSTMUnitGradient (n + 1) D t C_prev X seqLengths C H C_diff H_diff
               C_prev_diff X_diff) k =
          snd (LSTMUnitGradient n D t C_prev X seqLengths C H C_diff H_diff
               C_prev_diff X_diff) k)"
  by (auto simp: LSTMUnit_char LSTMUnitGradient_char)

text \<open>
  Claim C8.  For every batch index \<open>n\<close>, what \<open>LSTMUnit\<close> and \<open>LSTMUnitGradient\<close> write for
  sequence \<open>n\<close> depends only on \<open>t\<close> and on sequence \<open>n\<close>'s own slices of the inputs
  (\<open>C_prev\<close>, \<open>X\<close>, \<open>seqLengths\<close>, and for the backward pass \<open>C\<close>, \<open>C_diff\<close>, \<open>H_diff\<close>): two
  runs whose inputs agree on these slices agree on row \<open>n\<close> of the outputs, whatever the
  other sequences' inputs, the batch sizes and the previous contents of the output
  buffers are.  And no sequence writes into another one's slice: running \<open>n + 1\<close>
  sequences instead of \<open>n\<close> changes the outputs only inside row \<open>n\<close>.
\<close>

theorem sequences_independent:
  "(n < N \<and> n < N' \<and> seqLengths n = seqLengths' n \<and>
    (\<forall>d<D. C_prev (n * D + d) = C_prev' (n * D + d)) \<and>
    (\<forall>r<4 * D. X (n * (4 * D) + r) = X' (n * (4 * D) + r)) \<longrightarrow>
      (\<forall>d<D. fst (LSTMUnit N D t C_prev X seqLengths C0 H0) (n * D + d) =
               fst (LSTMUnit N' D t C_prev' X' seqLengths' C0' H0') (n * D + d) \<and>
              snd (LSTMUnit N D t C_prev X seqLengths C0 H0) (n * D + d) =
               snd (LSTMUnit N' D t C_prev' X' seqLengths' C0' H0') (n * D + d)) \<and>
      ((\<forall>d<D. C (n * D + d) = C' (n * D + d) \<and> C_diff (n * D + d) = C_diff' (n * D + d) \<and>
              H_diff (n * D + d) = H_diff' (n * D + d)) \<longrightarrow>
       (\<forall>d<D. fst (LSTMUnitGradient N D t C_prev X seqLengths C H C_diff H_diff
                     C_prev_diff X_diff) (n * D + d) =
               fst (LSTMUnitGradient N' D t C_prev' X' seqLengths' C' H' C_diff' H_diff'
                     C_prev_diff' X_diff') (n * D + d)) \<and>
       (\<forall>r<4 * D. snd (LSTMUnitGradient N D t C_prev X seqLengths C H C_diff H_diff
                     C_prev_diff X_diff) (n * (4 * D) + r) =
               snd (LSTMUnitGradient N' D t C_prev' X' seqLengths' C' H' C_diff' H_diff'
                     C_prev_diff' X_diff') (n * (4 * D) + r)))) \<and>
   (\<forall>k. k < n * D \<or> (n + 1) * D \<le> k \<longrightarrow>
        fst (LSTMUnit (n + 1) D t C_prev X seqLengths C0 H0) k =
          fst (LSTMUnit n D t C_prev X seqLengths C0 H0) k \<and>
        snd (LSTMUnit (n + 1) D t C_prev X seqLengths C0 H0) k =
          snd (LSTMUnit n D t C_prev X seqLengths C0 H0) k \<and>
        fst (LSTMUnitGradient (n + 1) D t C_prev X seqLengths C H C_diff H_diff
               C_prev_diff X_diff) k =
          fst (LSTMUnitGradient n D t C_prev X seqLengths C H C_diff H_diff
               C_prev_diff X_diff) k) \<and>
   (\<forall>k. k < n * (4 * D) \<or> (n + 1) * (4 * D) \<le> k \<longrightarrow>
        snd (LSTMUnitGradient (n + 1) D t C_prev X seqLengths C H C_diff H_diff
               C_prev_diff X_diff) k =
          snd (LSTMUnitGradient n D t C_prev X seqLengths C H C_diff H_diff
               C_prev_diff X_diff) k)"
  apply (rule conjI)
   apply (intro impI, elim conjE)
   apply (rule slice_determines_outputs; assumption)
  apply (rule writes_confined)
  done

theorem sequences_independent_witness:
  "(0::nat) < 2 \<and> (if (0::nat) = 0 then 1 else 0 :: int32) = 1 \<and>
   (if (0::nat) < 1 then 2 else 5 :: real) = 2 \<and>
   (if (3::nat) < 4 then 0 else 6 :: real) = 0 \<and>
   fst (LSTMUnit 2 1 0 (\<lambda>k. if k < 1 then 2 else 5) (\<lambda>k. if k < 4 then 0 else 6)
          (\<lambda>k. if k = 0 then 1 else 0) (\<lambda>_. 0) (\<lambda>_. 0)) 0 =
   fst (LSTMUnit 2 1 0 (\<lambda>_. 2) (\<lambda>_. 0) (\<lambda>_. 1) (\<lambda>_. 9) (\<lambda>_. 9)) 0 \<and>
   fst (LSTMUnit 1 1 0 (\<lambda>k. if k < 1 then 2 else 5) (\<lambda>k. if k < 4 then 0 else 6)
          (\<lambda>k. if k = 0 then 1 else 0) (\<lambda>_. 0) (\<lambda>_. 0)) 1 =
   fst (LSTMUnit 0 1 0 (\<lambda>k. if k < 1 then 2 else 5) (\<lambda>k. if k < 4 then 0 else 6)
          (\<lambda>k. if k = 0 then 1 else 0) (\<lambda>_. 0) (\<lambda>_. 0)) 1"
proof -
  have h: "(0::nat) < 2" "(if (0::nat) = 0 then 1 else 0 :: int32) = 1"
    "\<forall>d<1::nat. (if 0 * 1 + d < 1 then 2 else 5 :: real) = 2"
    "\<forall>r<4 * 1::nat. (if 0 * (4 * 1) + r < 4 then 0 else 6 :: real) = 0"
    by simp_all
  note w = sequences_independent[where n = 0 and N = 2 and N' = 2 and D = 1 and t = 0
      and seqLengths = "\<lambda>k. if k = 0 then 1 else 0" and seqLengths' = "\<lambda>_. 1"
      and C_prev = "\<lambda>k. if k < 1 then 2 else 5" and C_prev' = "\<lambda>_. 2"
      and X = "\<lambda>k. if k < 4 then 0 else 6" and X' = "\<lambda>_. 0"
      and ?C0.0 = "\<lambda>_. 0" and ?H0.0 = "\<lambda>_. 0" and C0' = "\<lambda>_. 9" and H0' = "\<lambda>_. 9"]
  from w[THEN conjunct1, rule_format, OF conjI[OF h(1) conjI[OF h(1) conjI[OF h(2) conjI[OF h(3) h(4)]]]],
      THEN conjunct1, rule_format, of 0]
    w[THEN conjunct2, THEN conjunct1, rule_format, of 1] h
  show ?thesis
    by simp
qed

section \<open>An example and the unused input\<close>

text \<open>
  Claim C9.  For \<open>N = 1\<close>, \<open>D = 1\<close>, \<open>t = 0\<close>, \<open>seqLengths = [1]\<close>, \<open>C_prev = [0.0]\<close> and gate
  pre-activations \<open>[0, 0, 0, 0]\<close>, \<open>LSTMUnit\<close> produces \<open>C = [0.0]\<close> and \<open>H = [0.0]\<close>
  (\<open>sigmoid(0) = 0.5\<close> and \<open>tanh(0) = 0\<close>); the output buffers are otherwise untouched.
\<close>

theorem LSTMUnit_example:
  assumes "C_prev 0 = 0" and "X 0 = 0" and "X 1 = 0" and "X 2 = 0" and "X 3 = 0"
    and "seqLengths 0 = 1"
  shows "sigmoid 0 = 1 / 2 \<and> tanh_T 0 = 0 \<and>
         LSTMUnit 1 1 0 C_prev X seqLengths C H = (C(0 := 0), H(0 := 0))"
  using assms
  by (auto simp: LSTMUnit_char cell_val_def hidden_val_def deref_def word_sless_alt
      sigmoid_0 tanh_T_0 fun_eq_iff)

theorem LSTMUnit_example_witness:
  "(\<lambda>_. 0 :: real) 0 = 0 \<and> (\<lambda>_. 0 :: real) 0 = 0 \<and> (\<lambda>_. 0 :: real) 1 = 0 \<and>
   (\<lambda>_. 0 :: real) 2 = 0 \<and> (\<lambda>_. 0 :: real) 3 = 0 \<and> (\<lambda>_. 1 :: int32) 0 = 1 \<and>
   LSTMUnit 1 1 0 (\<lambda>_. 0) (\<lambda>_. 0) (\<lambda>_. 1) (\<lambda>_. 7) (\<lambda>_. 7) = ((\<lambda>_. 7)(0 := 0), (\<lambda>_. 7)(0 := 0))"
  using LSTMUnit_example[of "\<lambda>_. 0" "\<lambda>_. 0" "\<lambda>_. 1" "\<lambda>_. 7" "\<lambda>_. 7"]
  by simp

text \<open>
  Claim C10.  The outputs of \<open>LSTMUnitGradient\<close> do not depend on the hidden-state input
  \<open>H\<close>: two invocations that differ only in the contents of \<open>H\<close> return the same
  \<open>C_prev_diff\<close> and \<open>X_diff\<close>.
\<close>

theorem LSTMUnitGradient_ignores_H:
  "LSTMUnitGradient N D t C_prev X seqLengths C H C_diff H_diff C_prev_diff X_diff =
   LSTMUnitGradient N D t C_prev X seqLengths C H' C_diff H_diff C_prev_diff X_diff"
  by (simp add: LSTMUnitGradient_char)

end
